theory Spec2Isabelle
  imports Complex_Main "HOL-Library.Monad_Syntax" "HOL-Library.AList" "HOL-Library.Multiset"
begin

section \<open>Python values used by the generators\<close>

text \<open>
  The embedding follows \<^verbatim>\<open>hr-datamart-v2/generators\<close>. Python \<^verbatim>\<open>int\<close> is \<^typ>\<open>int\<close>. A
  Python \<^verbatim>\<open>float\<close> is the real number it denotes, and every floating-point operation rounds
  its exact result as IEEE 754 binary64 arithmetic does (section on floats below). An
  operation that raises returns \<^term>\<open>None\<close>.
\<close>

subsection \<open>\<^verbatim>\<open>datetime.date\<close>\<close>

datatype date = Date (date_year: int) (date_month: int) (date_day: int)

definition is_leap :: "int \<Rightarrow> bool" where
  "is_leap y = (y mod 4 = 0 \<and> (y mod 100 \<noteq> 0 \<or> y mod 400 = 0))"

definition days_in_month :: "int \<Rightarrow> int \<Rightarrow> int" where
  "days_in_month y m =
     (if m = 2 then (if is_leap y then 29 else 28)
      else if m = 4 \<or> m = 6 \<or> m = 9 \<or> m = 11 then 30 else 31)"

definition valid_date :: "date \<Rightarrow> bool" where
  "valid_date d =
     (1 \<le> date_year d \<and> date_year d \<le> 9999 \<and> 1 \<le> date_month d \<and> date_month d \<le> 12
      \<and> 1 \<le> date_day d \<and> date_day d \<le> days_in_month (date_year d) (date_month d))"

definition py_date :: "int \<Rightarrow> int \<Rightarrow> int \<Rightarrow> date option" where
  \<comment> \<open>The constructor \<^verbatim>\<open>datetime.date(y, m, d)\<close>; \<^term>\<open>None\<close> is its ValueError.\<close>
  "py_date y m d = (if valid_date (Date y m d) then Some (Date y m d) else None)"

definition date_lt :: "date \<Rightarrow> date \<Rightarrow> bool" where
  "date_lt a b =
     (date_year a < date_year b
      \<or> (date_year a = date_year b
          \<and> (date_month a < date_month b
              \<or> (date_month a = date_month b \<and> date_day a < date_day b))))"

definition date_le :: "date \<Rightarrow> date \<Rightarrow> bool" where
  "date_le a b = (a = b \<or> date_lt a b)"

definition days_before_year :: "int \<Rightarrow> int" where
  "days_before_year y = (y - 1) * 365 + (y - 1) div 4 - (y - 1) div 100 + (y - 1) div 400"

definition days_before_month :: "int \<Rightarrow> int \<Rightarrow> int" where
  "days_before_month y m =
     [0, 31, 59, 90, 120, 151, 181, 212, 243, 273, 304, 334] ! nat (m - 1)
       + (if 2 < m \<and> is_leap y then 1 else 0)"

definition toordinal :: "date \<Rightarrow> int" where
  "toordinal d =
     days_before_year (date_year d) + days_before_month (date_year d) (date_month d) + date_day d"

definition date_diff_days :: "date \<Rightarrow> date \<Rightarrow> int" where
  \<comment> \<open>\<^verbatim>\<open>(a - b).days\<close>\<close>
  "date_diff_days a b = toordinal a - toordinal b"

fun date_succ :: "date \<Rightarrow> date" where
  "date_succ (Date y m d) =
     (if d < days_in_month y m then Date y m (d + 1)
      else if m < 12 then Date y (m + 1) 1 else Date (y + 1) 1 1)"

fun date_pred :: "date \<Rightarrow> date" where
  "date_pred (Date y m d) =
     (if 1 < d then Date y m (d - 1)
      else if 1 < m then Date y (m - 1) (days_in_month y (m - 1)) else Date (y - 1) 12 31)"

definition date_add_days :: "date \<Rightarrow> int \<Rightarrow> date option" where
  \<comment> \<open>\<^verbatim>\<open>d + timedelta(days=k)\<close>: \<open>k\<close> steps along the calendar; \<^term>\<open>None\<close> is the
      OverflowError outside the years 1 to 9999.\<close>
  "date_add_days d k =
     (let r = (if 0 \<le> k then (date_succ ^^ nat k) d else (date_pred ^^ nat (- k)) d)
      in if 1 \<le> date_year r \<and> date_year r \<le> 9999 then Some r else None)"

definition date_max :: "date \<Rightarrow> date \<Rightarrow> date" where
  \<comment> \<open>\<^verbatim>\<open>max(a, b)\<close> on dates: the first argument unless the second is greater.\<close>
  "date_max a b = (if date_lt a b then b else a)"

subsection \<open>\<^verbatim>\<open>datetime.datetime\<close>\<close>

datatype datetime = DateTime (dt_date: date) (dt_hour: int) (dt_minute: int) (dt_second: int)

definition datetime_add :: "datetime \<Rightarrow> int \<Rightarrow> int \<Rightarrow> int \<Rightarrow> int \<Rightarrow> datetime option" where
  \<comment> \<open>\<^verbatim>\<open>dt + timedelta(days, hours, minutes, seconds)\<close>\<close>
  "datetime_add dt days hours minutes seconds =
     (let total = (dt_hour dt + hours) * 3600 + (dt_minute dt + minutes) * 60
                    + dt_second dt + seconds;
          rem = total mod 86400
      in do {
        d \<leftarrow> date_add_days (dt_date dt) (days + total div 86400);
        Some (DateTime d (rem div 3600) (rem mod 3600 div 60) (rem mod 60))
      })"

definition datetime_lt :: "datetime \<Rightarrow> datetime \<Rightarrow> bool" where
  "datetime_lt a b =
     (date_lt (dt_date a) (dt_date b)
      \<or> (dt_date a = dt_date b
          \<and> (dt_hour a < dt_hour b
              \<or> (dt_hour a = dt_hour b
                  \<and> (dt_minute a < dt_minute b
                      \<or> (dt_minute a = dt_minute b \<and> dt_second a < dt_second b))))))"

subsection \<open>Decimal formatting\<close>

definition digit_char :: "nat \<Rightarrow> char" where
  "digit_char n = ''0123456789'' ! n"

fun dec_digits :: "nat \<Rightarrow> string" where
  "dec_digits n =
     (if n < 10 then [digit_char n] else dec_digits (n div 10) @ [digit_char (n mod 10)])"

declare dec_digits.simps [simp del]

definition zero_pad :: "nat \<Rightarrow> string \<Rightarrow> string" where
  "zero_pad w s = replicate (w - length s) (CHR ''0'') @ s"

definition fmt_0d :: "nat \<Rightarrow> int \<Rightarrow> string" where
  \<comment> \<open>The format \<^verbatim>\<open>{n:0wd}\<close>: the sign counts in the width.\<close>
  "fmt_0d w n =
     (if n < 0 then CHR ''-'' # zero_pad (w - 1) (dec_digits (nat (- n)))
      else zero_pad w (dec_digits (nat n)))"

definition date_isoformat :: "date \<Rightarrow> string" where
  "date_isoformat d =
     fmt_0d 4 (date_year d) @ ''-'' @ fmt_0d 2 (date_month d) @ ''-'' @ fmt_0d 2 (date_day d)"

definition datetime_isoformat :: "datetime \<Rightarrow> string" where
  \<comment> \<open>\<^verbatim>\<open>isoformat()\<close> with the default separator; the microsecond is always 0 here.\<close>
  "datetime_isoformat dt =
     date_isoformat (dt_date dt) @ ''T'' @ fmt_0d 2 (dt_hour dt) @ '':''
       @ fmt_0d 2 (dt_minute dt) @ '':'' @ fmt_0d 2 (dt_second dt)"

subsection \<open>\<^verbatim>\<open>int(s)\<close> on a string\<close>

text \<open>
  A character of a string is its code point, below 256. \<^verbatim>\<open>int(s)\<close> drops the blanks at both
  ends, reads one optional sign and then decimal digits, with single underscores allowed
  between two digits. More than 4300 digits are refused (the default
  \<^verbatim>\<open>sys.int_max_str_digits\<close>).
\<close>

definition digit_val :: "char \<Rightarrow> nat option" where
  \<comment> \<open>The value of an ASCII digit (codes 48 to 57).\<close>
  "digit_val c = (let n = (of_char c :: nat) in if 48 \<le> n \<and> n \<le> 57 then Some (n - 48) else None)"

definition int_blank :: "char \<Rightarrow> bool" where
  \<comment> \<open>The characters that \<^verbatim>\<open>int\<close> skips at the ends: tab to carriage return, space,
      and the two blanks U+0085 and U+00A0.\<close>
  "int_blank c =
     (let n = (of_char c :: nat) in (9 \<le> n \<and> n \<le> 13) \<or> n = 32 \<or> n = 133 \<or> n = 160)"

fun digits_value :: "nat \<Rightarrow> nat \<Rightarrow> bool \<Rightarrow> string \<Rightarrow> nat option" where
  \<comment> \<open>The value read so far, the number of digits read, and whether the last character was a
      digit.\<close>
  "digits_value acc cnt after_digit [] =
     (if after_digit \<and> cnt \<le> 4300 then Some acc else None)"
| "digits_value acc cnt after_digit (c # cs) =
     (if c = CHR ''_'' then (if after_digit then digits_value acc cnt False cs else None)
      else case digit_val c of
             None \<Rightarrow> None
           | Some v \<Rightarrow> digits_value (10 * acc + v) (cnt + 1) True cs)"

definition py_int_of_str :: "string \<Rightarrow> int option" where
  \<comment> \<open>\<^verbatim>\<open>int(s)\<close>; \<^term>\<open>None\<close> is the ValueError.\<close>
  "py_int_of_str s =
     (case rev (dropWhile int_blank (rev (dropWhile int_blank s))) of
        [] \<Rightarrow> None
      | c # cs \<Rightarrow>
          if c = CHR ''-'' then map_option (\<lambda>n. - int n) (digits_value 0 0 False cs)
          else if c = CHR ''+'' then map_option int (digits_value 0 0 False cs)
          else map_option int (digits_value 0 0 False (c # cs)))"

subsection \<open>\<^verbatim>\<open>float\<close>\<close>

text \<open>
  A finite binary64 number is the real number it denotes. \<open>fl\<close> rounds a real number to the
  nearest binary64 number, ties to the even significand: around \<open>x\<close> the binary64 numbers are
  \<open>ulp x\<close> apart, which is \<open>2 ^ (e - 52)\<close> for the exponent \<open>e\<close> of \<open>x\<close>, and \<open>e\<close> is taken at
  least -1022, where the subnormal numbers begin. An arithmetic operation rounds its exact
  result. Infinities and NaN are not values of the model: a conversion that Python refuses on
  an overflowed result returns \<^term>\<open>None\<close>; where Python would carry an infinity on, the model
  carries the rounded real number on.
\<close>

fun bit_length :: "nat \<Rightarrow> nat" where
  \<comment> \<open>\<^verbatim>\<open>int.bit_length\<close>\<close>
  "bit_length n = (if n = 0 then 0 else Suc (bit_length (n div 2)))"

declare bit_length.simps [simp del]

definition pow2 :: "int \<Rightarrow> real" where
  "pow2 e = (if 0 \<le> e then 2 ^ nat e else 1 / 2 ^ nat (- e))"

definition binade :: "real \<Rightarrow> int" where
  \<comment> \<open>The exponent \<open>e\<close> with \<open>2 ^ e \<le> \<bar>x\<bar> < 2 ^ (e + 1)\<close>, for \<open>x\<close> other than 0.\<close>
  "binade x =
     (let a = \<bar>x\<bar>
      in if 1 \<le> a then int (bit_length (nat \<lfloor>a\<rfloor>)) - 1
         else - int (bit_length (nat (\<lceil>1 / a\<rceil> - 1))))"

definition round_half_even :: "real \<Rightarrow> int" where
  "round_half_even x =
     (let f = \<lfloor>x\<rfloor>; d = x - of_int f
      in if d < 1/2 then f else if 1/2 < d then f + 1 else if even f then f else f + 1)"

definition ulp :: "real \<Rightarrow> real" where
  "ulp x = pow2 (max (binade x) (- 1022) - 52)"

definition fl :: "real \<Rightarrow> real" where
  "fl x = real_of_int (round_half_even (x / ulp x)) * ulp x"

definition fadd :: "real \<Rightarrow> real \<Rightarrow> real" where
  "fadd a b = fl (a + b)"

definition fsub :: "real \<Rightarrow> real \<Rightarrow> real" where
  "fsub a b = fl (a - b)"

definition fmul :: "real \<Rightarrow> real \<Rightarrow> real" where
  "fmul a b = fl (a * b)"

definition fdiv :: "real \<Rightarrow> real \<Rightarrow> real option" where
  \<comment> \<open>\<^term>\<open>None\<close> is the ZeroDivisionError.\<close>
  "fdiv a b = (if b = 0 then None else Some (fl (a / b)))"

definition float_of_int :: "int \<Rightarrow> real option" where
  \<comment> \<open>\<^verbatim>\<open>float(n)\<close>, also where an int meets a float in an operation; \<^term>\<open>None\<close> is the
      OverflowError.\<close>
  "float_of_int n = (let x = fl (real_of_int n) in if \<bar>x\<bar> < 2 ^ 1024 then Some x else None)"

definition int_truediv :: "int \<Rightarrow> int \<Rightarrow> real option" where
  \<comment> \<open>\<^verbatim>\<open>a / b\<close> on two ints: the quotient rounded once; \<^term>\<open>None\<close> is the ZeroDivisionError
      or the OverflowError.\<close>
  "int_truediv a b =
     (if b = 0 then None
      else let x = fl (real_of_int a / real_of_int b)
           in if \<bar>x\<bar> < 2 ^ 1024 then Some x else None)"

definition py_int :: "real \<Rightarrow> int option" where
  \<comment> \<open>\<^verbatim>\<open>int(x)\<close> on a float: truncation toward zero; \<^term>\<open>None\<close> is the OverflowError on an
      infinity.\<close>
  "py_int x = (if \<bar>x\<bar> < 2 ^ 1024 then Some (if 0 \<le> x then \<lfloor>x\<rfloor> else \<lceil>x\<rceil>) else None)"

definition py_round2 :: "real \<Rightarrow> real" where
  \<comment> \<open>\<^verbatim>\<open>round(x, 2)\<close>: the decimal with two places nearest to \<open>x\<close>, ties to even, read back
      as a float; a number without fractional part, int or float, is returned as it is.\<close>
  "py_round2 x =
     (if x = real_of_int \<lfloor>x\<rfloor> then x
      else fl (real_of_int (round_half_even (x * 100)) / 100))"

subsection \<open>Growth curve (\<^verbatim>\<open>utils.interpolate_headcount\<close>)\<close>

text \<open>The anchor list \<^verbatim>\<open>config.GROWTH_ANCHORS\<close> is passed as the first argument.\<close>

definition interp_value :: "date \<times> int \<Rightarrow> date \<times> int \<Rightarrow> date \<Rightarrow> int option" where
  \<comment> \<open>The body of the loop of \<^verbatim>\<open>interpolate_headcount\<close> once the bracketing pair is found;
      \<^term>\<open>None\<close> is the OverflowError of a headcount too large for a float.\<close>
  "interp_value a1 a2 target_date =
     (let d1 = fst a1; h1 = snd a1; d2 = fst a2; h2 = snd a2;
          days_total = date_diff_days d2 d1;
          days_elapsed = date_diff_days target_date d1
      in if days_total = 0 then Some h1
         else do {
           ratio \<leftarrow> int_truediv days_elapsed days_total;
           dh \<leftarrow> float_of_int (h2 - h1);
           h \<leftarrow> float_of_int h1;
           py_int (fadd h (fmul dh ratio))
         })"

fun interp_loop :: "(date \<times> int) list \<Rightarrow> date \<Rightarrow> int \<Rightarrow> int option" where
  \<comment> \<open>The loop over the pairs of neighbouring anchors, and the return that follows it.\<close>
  "interp_loop (a1 # a2 # rest) target_date dflt =
     (if date_le (fst a1) target_date \<and> date_le target_date (fst a2)
      then interp_value a1 a2 target_date
      else interp_loop (a2 # rest) target_date dflt)"
| "interp_loop [a1] target_date dflt = Some dflt"
| "interp_loop [] target_date dflt = Some dflt"

definition interpolate_headcount :: "(date \<times> int) list \<Rightarrow> date \<Rightarrow> int option" where
  \<comment> \<open>\<^term>\<open>None\<close> is also the IndexError of \<^verbatim>\<open>anchors[0]\<close> on an empty anchor list.\<close>
  "interpolate_headcount anchors target_date =
     (case anchors of
        [] \<Rightarrow> None
      | a0 # _ \<Rightarrow>
          if date_le target_date (fst a0) then Some (snd a0)
          else if date_le (fst (last anchors)) target_date then Some (snd (last anchors))
          else interp_loop anchors target_date (snd (last anchors)))"

fun anchors_ordered :: "(date \<times> int) list \<Rightarrow> bool" where
  \<comment> \<open>Anchors are calendar dates, strictly ordered by date.\<close>
  "anchors_ordered (a1 # a2 # rest) =
     (valid_date (fst a1) \<and> date_lt (fst a1) (fst a2) \<and> anchors_ordered (a2 # rest))"
| "anchors_ordered [a1] = valid_date (fst a1)"
| "anchors_ordered [] = True"

section \<open>The random generator\<close>

text \<open>
  The generators draw from one \<^verbatim>\<open>random.Random\<close> object. Its internal state is not
  modelled: a generator state is the list of raw values it will deliver, one per call, and
  each method decodes its raw value into a result in the range that the Python method
  guarantees. Every sequence of results that the Python methods can deliver is the decoding
  of some list, so a statement proved for all lists holds for every seed. An exhausted list
  delivers 0 for ever.
\<close>

type_synonym rng = "real list"

definition rng_next :: "rng \<Rightarrow> real \<times> rng" where
  "rng_next g = (case g of [] \<Rightarrow> (0, []) | x # rest \<Rightarrow> (x, rest))"

definition rng_random :: "rng \<Rightarrow> real \<times> rng" where
  \<comment> \<open>\<^verbatim>\<open>rng.random()\<close>: a multiple of \<open>2 ^ -53\<close> in the half-open interval from 0 to 1.\<close>
  "rng_random g =
     (let (x, g') = rng_next g in (real_of_int (\<lfloor>x * 2 ^ 53\<rfloor> mod 2 ^ 53) / 2 ^ 53, g'))"

definition rng_uniform :: "rng \<Rightarrow> real \<Rightarrow> real \<Rightarrow> real \<times> rng" where
  \<comment> \<open>\<^verbatim>\<open>rng.uniform(a, b)\<close> is \<^verbatim>\<open>a + (b - a) * random()\<close>.\<close>
  "rng_uniform g a b = (let (r, g') = rng_random g in (fadd a (fmul (fsub b a) r), g'))"

definition rng_randint :: "rng \<Rightarrow> int \<Rightarrow> int \<Rightarrow> (int \<times> rng) option" where
  \<comment> \<open>\<^verbatim>\<open>rng.randint(a, b)\<close>; \<^term>\<open>None\<close> is the ValueError of an empty range.\<close>
  "rng_randint g a b =
     (if b < a then None
      else let (x, g') = rng_next g in Some (a + \<lfloor>x\<rfloor> mod (b - a + 1), g'))"

definition rng_choice :: "rng \<Rightarrow> 'a list \<Rightarrow> ('a \<times> rng) option" where
  \<comment> \<open>\<^verbatim>\<open>rng.choice(seq)\<close>; \<^term>\<open>None\<close> is the IndexError of an empty sequence.\<close>
  "rng_choice g xs =
     (if xs = [] then None
      else let (x, g') = rng_next g in Some (xs ! nat (\<lfloor>x\<rfloor> mod int (length xs)), g'))"

definition rng_gauss :: "rng \<Rightarrow> real \<Rightarrow> real \<Rightarrow> real \<times> rng" where
  \<comment> \<open>\<^verbatim>\<open>rng.gauss(mu, sigma)\<close>: \<open>mu + z * sigma\<close> for a normal deviate \<open>z\<close>, here the raw
      value read as a float.\<close>
  "rng_gauss g mu sigma = (let (z, g') = rng_next g in (fadd mu (fmul (fl z) sigma), g'))"

fun shuffle_loop :: "nat \<Rightarrow> 'a list \<Rightarrow> rng \<Rightarrow> 'a list \<times> rng" where
  \<comment> \<open>\<^verbatim>\<open>for i in reversed(range(1, len(x))): j = randbelow(i + 1); x[i], x[j] = x[j], x[i]\<close>\<close>
  "shuffle_loop 0 xs g = (xs, g)"
| "shuffle_loop (Suc i) xs g =
     (let (x, g') = rng_next g;
          j = nat (\<lfloor>x\<rfloor> mod int (Suc i + 1))
      in shuffle_loop i (xs[Suc i := xs ! j, j := xs ! Suc i]) g')"

definition rng_shuffle :: "rng \<Rightarrow> 'a list \<Rightarrow> 'a list \<times> rng" where
  \<comment> \<open>\<^verbatim>\<open>rng.shuffle(x)\<close>; the shuffled list is returned with the new state.\<close>
  "rng_shuffle g xs = shuffle_loop (length xs - 1) xs g"

fun accumulate_from :: "real \<Rightarrow> real list \<Rightarrow> real list" where
  "accumulate_from s [] = [s]"
| "accumulate_from s (w # ws) = s # accumulate_from (fadd s w) ws"

definition accumulate :: "real list \<Rightarrow> real list" where
  \<comment> \<open>\<^verbatim>\<open>itertools.accumulate\<close>: the running sums.\<close>
  "accumulate ws = (case ws of [] \<Rightarrow> [] | w # rest \<Rightarrow> accumulate_from w rest)"

function bisect_right :: "real list \<Rightarrow> real \<Rightarrow> nat \<Rightarrow> nat \<Rightarrow> nat" where
  \<comment> \<open>\<^verbatim>\<open>bisect.bisect(a, x, lo, hi)\<close>\<close>
  "bisect_right a x lo hi =
     (if lo < hi
      then (let mid = (lo + hi) div 2
            in if x < a ! mid then bisect_right a x lo mid else bisect_right a x (mid + 1) hi)
      else lo)"
  by pat_completeness auto
termination
  by (relation "measure (\<lambda>(a, x, lo, hi). hi - lo)") auto

declare bisect_right.simps [simp del]

definition rng_choices :: "rng \<Rightarrow> 'a list \<Rightarrow> real list \<Rightarrow> ('a \<times> rng) option" where
  \<comment> \<open>\<^verbatim>\<open>rng.choices(population, weights=weights, k=1)[0]\<close>; \<^term>\<open>None\<close> is the ValueError of
      mismatched lengths or of a total weight that is not positive or not finite, or the
      IndexError of an empty population.\<close>
  "rng_choices g population weights =
     (let n = length population; cum_weights = accumulate weights
      in if length cum_weights \<noteq> n \<or> n = 0 then None
         else let total = fadd (last cum_weights) 0
              in if total \<le> 0 \<or> \<not> \<bar>total\<bar> < 2 ^ 1024 then None
                 else let (r, g') = rng_random g
                      in Some (population ! bisect_right cum_weights (fmul r total) 0 (n - 1),
                               g'))"

section \<open>Configuration (\<^verbatim>\<open>config.py\<close>)\<close>

text \<open>
  The module constants that the timeline generator reads are the fields of one record, so
  that every function takes the configuration as its first argument; \<open>default_config\<close> holds
  the values of \<^verbatim>\<open>config.py\<close>. Dictionaries are association lists in the order of the source.
  Of each table row the keys that the timeline generator reads are kept.
\<close>

record grade =
  g_id :: string
  g_name :: string
  g_profile_id :: string
  g_min :: int
  g_mid :: int
  g_max :: int

record location =
  loc_id :: string
  loc_name :: string
  loc_city :: string
  loc_region :: string
  loc_region_name :: string
  loc_postal :: string
  loc_weight :: real

record worker_type_row =
  wt_type :: string
  wt_sub_type :: string
  wt_weight :: real

record time_type_row =
  tt_name :: string
  tt_weight :: real
  tt_fte :: real
  tt_hours :: real

record work_model_row =
  wm_type :: string
  wm_weight_pre_2020 :: real
  wm_weight_post_2020 :: real

record career_action =
  ca_action :: string
  ca_code :: string
  ca_reason :: string
  ca_reason_code :: string
  ca_weight :: real

record config =
  SEED :: int
  COMPANY_FOUNDED :: date
  DATA_END_DATE :: date
  GROWTH_ANCHORS :: "(date \<times> int) list"
  ANNUAL_ATTRITION_RATE :: "(int \<times> real) list"
  TERM_REASON_MIX :: "(string \<times> real) list"
  VOLUNTARY_REASONS :: "(string \<times> string \<times> real) list"
  INVOLUNTARY_REASONS :: "(string \<times> string \<times> real) list"
  REGRETTABLE_TERM_RATE :: real
  COMPANIES :: "string list"
  COMPANY_WEIGHTS :: "(string \<times> real) list"
  COMPANY_COUNTRY :: "(string \<times> string) list"
  LOCATIONS_CA :: "location list"
  LOCATIONS_US :: "location list"
  GRADES :: "grade list"
  GRADE_WEIGHTS :: "(string \<times> real) list"
  WORKER_TYPES :: "worker_type_row list"
  TIME_TYPES :: "time_type_row list"
  WORK_MODELS :: "work_model_row list"
  CAREER_ACTIONS :: "career_action list"
  GENDER_DISTRIBUTION :: "(string \<times> real) list"
  RACE_ETHNICITY_DISTRIBUTION :: "(string \<times> real) list"
  GENERATION_BANDS :: "(string \<times> int \<times> int \<times> real) list"
  AVG_MONTHS_BETWEEN_EVENTS :: int
  ANNUAL_COMP_CHANGE_RATE :: real
  AVG_ANNUAL_RAISE_PCT :: real
  RAISE_STD_DEV :: real
  AVG_LOA_DAYS :: int
  RESCIND_RATE :: real

definition mk_grade :: "string \<Rightarrow> string \<Rightarrow> string \<Rightarrow> int \<Rightarrow> int \<Rightarrow> int \<Rightarrow> grade" where
  "mk_grade i n p lo mi hi =
     \<lparr>g_id = i, g_name = n, g_profile_id = p, g_min = lo, g_mid = mi, g_max = hi\<rparr>"

definition mk_location ::
  "string \<Rightarrow> string \<Rightarrow> string \<Rightarrow> string \<Rightarrow> string \<Rightarrow> string \<Rightarrow> real \<Rightarrow> location" where
  "mk_location i n c r rn p w =
     \<lparr>loc_id = i, loc_name = n, loc_city = c, loc_region = r, loc_region_name = rn,
      loc_postal = p, loc_weight = w\<rparr>"

definition mk_action :: "string \<Rightarrow> string \<Rightarrow> string \<Rightarrow> string \<Rightarrow> real \<Rightarrow> career_action" where
  "mk_action a c r rc w =
     \<lparr>ca_action = a, ca_code = c, ca_reason = r, ca_reason_code = rc, ca_weight = w\<rparr>"

definition default_GRADES :: "grade list" where
  "default_GRADES =
     [mk_grade ''G01'' ''Analyst I'' ''GP_01'' 42000 50000 58000,
      mk_grade ''G02'' ''Analyst II'' ''GP_02'' 52000 62000 72000,
      mk_grade ''G03'' ''Senior Analyst'' ''GP_03'' 65000 78000 91000,
      mk_grade ''G04'' ''Associate'' ''GP_04'' 78000 95000 112000,
      mk_grade ''G05'' ''Senior Associate'' ''GP_05'' 92000 112000 132000,
      mk_grade ''G06'' ''Manager'' ''GP_06'' 105000 130000 155000,
      mk_grade ''G07'' ''Senior Manager'' ''GP_07'' 125000 155000 185000,
      mk_grade ''G08'' ''Associate Director'' ''GP_08'' 145000 180000 215000,
      mk_grade ''G09'' ''Director'' ''GP_09'' 170000 215000 260000,
      mk_grade ''G10'' ''Senior Director'' ''GP_10'' 200000 255000 310000,
      mk_grade ''G11'' ''Vice President'' ''GP_11'' 240000 310000 380000,
      mk_grade ''G12'' ''Senior Vice President'' ''GP_12'' 300000 390000 480000,
      mk_grade ''G13'' ''Executive Vice President'' ''GP_13'' 380000 480000 580000,
      mk_grade ''G14'' ''Managing Director'' ''GP_14'' 450000 575000 700000,
      mk_grade ''G15'' ''C-Suite'' ''GP_15'' 550000 750000 950000]"

definition default_LOCATIONS_CA :: "location list" where
  "default_LOCATIONS_CA =
     [mk_location ''LOC_TOR_HQ'' ''Toronto - Head Office'' ''Toronto'' ''ON'' ''Ontario''
        ''M5J 2S1'' (fl (25/100)),
      mk_location ''LOC_TOR_FP'' ''Toronto - First Canadian Place'' ''Toronto'' ''ON'' ''Ontario''
        ''M5X 1A1'' (fl (8/100)),
      mk_location ''LOC_MTL'' ''Montreal Office'' ''Montreal'' ''QC'' ''Quebec'' ''H3B 4W8'' (fl (7/100)),
      mk_location ''LOC_VAN'' ''Vancouver Office'' ''Vancouver'' ''BC'' ''British Columbia''
        ''V6C 3L6'' (fl (5/100)),
      mk_location ''LOC_CAL'' ''Calgary Office'' ''Calgary'' ''AB'' ''Alberta'' ''T2P 3C5'' (fl (4/100)),
      mk_location ''LOC_OTT'' ''Ottawa Office'' ''Ottawa'' ''ON'' ''Ontario'' ''K1P 1J9'' (fl (3/100)),
      mk_location ''LOC_WIN'' ''Winnipeg Office'' ''Winnipeg'' ''MB'' ''Manitoba'' ''R3C 4A5'' (fl (2/100)),
      mk_location ''LOC_HAL'' ''Halifax Office'' ''Halifax'' ''NS'' ''Nova Scotia'' ''B3J 3N2'' (fl (2/100)),
      mk_location ''LOC_CA_REM'' ''Canada - Remote'' ''Various'' ''ON'' ''Ontario'' ''M5V 1J2''
        (fl (4/100))]"

definition default_LOCATIONS_US :: "location list" where
  "default_LOCATIONS_US =
     [mk_location ''LOC_NYC'' ''New York Office'' ''New York'' ''NY'' ''New York'' ''10005'' (fl (12/100)),
      mk_location ''LOC_CHI'' ''Chicago Office'' ''Chicago'' ''IL'' ''Illinois'' ''60606'' (fl (6/100)),
      mk_location ''LOC_SF'' ''San Francisco Office'' ''San Francisco'' ''CA'' ''California''
        ''94105'' (fl (4/100)),
      mk_location ''LOC_BOS'' ''Boston Office'' ''Boston'' ''MA'' ''Massachusetts'' ''02110'' (fl (3/100)),
      mk_location ''LOC_MIA'' ''Miami Office'' ''Miami'' ''FL'' ''Florida'' ''33131'' (fl (3/100)),
      mk_location ''LOC_DAL'' ''Dallas Office'' ''Dallas'' ''TX'' ''Texas'' ''75201'' (fl (2/100)),
      mk_location ''LOC_US_REM'' ''United States - Remote'' ''Various'' ''NY'' ''New York''
        ''10001'' (fl (5/100))]"

definition default_CAREER_ACTIONS :: "career_action list" where
  "default_CAREER_ACTIONS =
     [mk_action ''Change Job'' ''CHG_JOB'' ''Promotion'' ''CHG_PROMO'' (fl (20/100)),
      mk_action ''Change Job'' ''CHG_JOB'' ''Lateral Move'' ''CHG_LAT'' (fl (12/100)),
      mk_action ''Change Job'' ''CHG_JOB'' ''Transfer'' ''CHG_XFER'' (fl (10/100)),
      mk_action ''Change Job'' ''CHG_JOB'' ''Demotion'' ''CHG_DEMO'' (fl (3/100)),
      mk_action ''Data Change'' ''DAT_CHG'' ''Compensation Change'' ''DAT_COMP'' (fl (30/100)),
      mk_action ''Data Change'' ''DAT_CHG'' ''Location Change'' ''DAT_LOC'' (fl (5/100)),
      mk_action ''Data Change'' ''DAT_CHG'' ''Org Change'' ''DAT_ORG'' (fl (5/100)),
      mk_action ''Leave of Absence'' ''LOA'' ''Leave of Absence'' ''LOA_GEN'' (fl (8/100)),
      mk_action ''Return from Leave'' ''RFL'' ''Return from Leave'' ''RFL_GEN'' (fl (7/100))]"

definition default_GROWTH_ANCHORS :: "(date \<times> int) list" where
  "default_GROWTH_ANCHORS =
     [(Date 2016 2 28, 150), (Date 2016 6 30, 600), (Date 2016 12 31, 2000),
      (Date 2017 6 30, 3500), (Date 2017 12 31, 5000), (Date 2018 6 30, 6500),
      (Date 2018 12 31, 8000), (Date 2019 6 30, 9000), (Date 2019 12 31, 9500),
      (Date 2020 6 30, 10000), (Date 2020 12 31, 10000), (Date 2021 12 31, 10200),
      (Date 2022 12 31, 9800), (Date 2023 12 31, 10100), (Date 2024 12 31, 10300),
      (Date 2025 12 31, 10000), (Date 2026 2 13, 10050)]"

definition default_config :: config where
  "default_config =
     \<lparr>SEED = 20160213,
      COMPANY_FOUNDED = Date 2016 2 13,
      DATA_END_DATE = Date 2026 2 13,
      GROWTH_ANCHORS = default_GROWTH_ANCHORS,
      ANNUAL_ATTRITION_RATE =
        [(2016, fl (6/100)), (2017, fl (8/100)), (2018, fl (10/100)), (2019, fl (12/100)), (2020, fl (14/100)),
         (2021, fl (15/100)), (2022, fl (16/100)), (2023, fl (15/100)), (2024, fl (14/100)), (2025, fl (13/100)),
         (2026, fl (13/100))],
      TERM_REASON_MIX =
        [(''Voluntary'', fl (58/100)), (''Involuntary'', fl (25/100)), (''Retirement'', fl (10/100)),
         (''Death'', fl (1/100)), (''End of Contract'', fl (6/100))],
      VOLUNTARY_REASONS =
        [(''VOL-BETTER_OPP'', ''Better Opportunity'', fl (40/100)),
         (''VOL-RELOCATION'', ''Relocation'', fl (12/100)),
         (''VOL-CAREER_CHG'', ''Career Change'', fl (15/100)),
         (''VOL-COMPENSATION'', ''Compensation'', fl (13/100)),
         (''VOL-PERSONAL'', ''Personal Reasons'', fl (10/100)),
         (''VOL-RETURN_SCHOOL'', ''Return to School'', fl (5/100)),
         (''VOL-OTHER'', ''Other Voluntary'', fl (5/100))],
      INVOLUNTARY_REASONS =
        [(''INV-PERFORMANCE'', ''Performance'', fl (40/100)),
         (''INV-RESTRUCTURE'', ''Restructuring'', fl (25/100)),
         (''INV-MISCONDUCT'', ''Misconduct'', fl (15/100)),
         (''INV-POSITION_ELIM'', ''Position Elimination'', fl (12/100)),
         (''INV-OTHER'', ''Other Involuntary'', fl (8/100))],
      REGRETTABLE_TERM_RATE = fl (35/100),
      COMPANIES =
        [''WARLAB_HOLD'', ''WARLAB_CA'', ''WARLAB_US'', ''WARLAB_WM'', ''WARLAB_CAP'',
         ''WARLAB_INS'', ''WARLAB_TECH'', ''WARLAB_USADV''],
      COMPANY_WEIGHTS =
        [(''WARLAB_HOLD'', fl (2/100)), (''WARLAB_CA'', fl (25/100)), (''WARLAB_US'', fl (20/100)),
         (''WARLAB_WM'', fl (12/100)), (''WARLAB_CAP'', fl (10/100)), (''WARLAB_INS'', fl (8/100)),
         (''WARLAB_TECH'', fl (15/100)), (''WARLAB_USADV'', fl (8/100))],
      COMPANY_COUNTRY =
        [(''WARLAB_HOLD'', ''CA''), (''WARLAB_CA'', ''CA''), (''WARLAB_US'', ''US''),
         (''WARLAB_WM'', ''CA''), (''WARLAB_CAP'', ''CA''), (''WARLAB_INS'', ''CA''),
         (''WARLAB_TECH'', ''CA''), (''WARLAB_USADV'', ''US'')],
      LOCATIONS_CA = default_LOCATIONS_CA,
      LOCATIONS_US = default_LOCATIONS_US,
      GRADES = default_GRADES,
      GRADE_WEIGHTS =
        [(''G01'', fl (12/100)), (''G02'', fl (14/100)), (''G03'', fl (15/100)), (''G04'', fl (13/100)),
         (''G05'', fl (12/100)), (''G06'', fl (10/100)), (''G07'', fl (8/100)), (''G08'', fl (5/100)),
         (''G09'', fl (4/100)), (''G10'', fl (3/100)), (''G11'', fl (2/100)), (''G12'', fl (1/100)),
         (''G13'', fl (5/1000)), (''G14'', fl (3/1000)), (''G15'', fl (2/1000))],
      WORKER_TYPES =
        [\<lparr>wt_type = ''Employee'', wt_sub_type = ''Regular'', wt_weight = fl (88/100)\<rparr>,
         \<lparr>wt_type = ''Employee'', wt_sub_type = ''Fixed Term'', wt_weight = fl (7/100)\<rparr>,
         \<lparr>wt_type = ''Contingent Worker'', wt_sub_type = ''Contractor'', wt_weight = fl (5/100)\<rparr>],
      TIME_TYPES =
        [\<lparr>tt_name = ''Full_Time'', tt_weight = fl (92/100), tt_fte = 1, tt_hours = 375/10\<rparr>,
         \<lparr>tt_name = ''Part_Time'', tt_weight = fl (8/100), tt_fte = 5/10, tt_hours = 1875/100\<rparr>],
      WORK_MODELS =
        [\<lparr>wm_type = ''On-Site'', wm_weight_pre_2020 = fl (85/100), wm_weight_post_2020 = fl (20/100)\<rparr>,
         \<lparr>wm_type = ''Remote'', wm_weight_pre_2020 = fl (5/100), wm_weight_post_2020 = fl (35/100)\<rparr>,
         \<lparr>wm_type = ''Hybrid'', wm_weight_pre_2020 = fl (10/100), wm_weight_post_2020 = fl (45/100)\<rparr>],
      CAREER_ACTIONS = default_CAREER_ACTIONS,
      GENDER_DISTRIBUTION =
        [(''Male'', fl (52/100)), (''Female'', fl (45/100)), (''Non-Binary'', fl (2/100)),
         (''Not Disclosed'', fl (1/100))],
      RACE_ETHNICITY_DISTRIBUTION =
        [(''White'', fl (55/100)), (''Asian'', fl (15/100)), (''Black or African American'', fl (8/100)),
         (''Hispanic or Latino'', fl (7/100)), (''South Asian'', fl (6/100)), (''Indigenous'', fl (3/100)),
         (''Two or More Races'', fl (3/100)), (''Not Disclosed'', fl (3/100))],
      GENERATION_BANDS =
        [(''Baby Boomer'', 1946, 1964, fl (12/100)), (''Gen X'', 1965, 1980, fl (28/100)),
         (''Millennial'', 1981, 1996, fl (42/100)), (''Gen Z'', 1997, 2012, fl (18/100))],
      AVG_MONTHS_BETWEEN_EVENTS = 18,
      ANNUAL_COMP_CHANGE_RATE = fl (85/100),
      AVG_ANNUAL_RAISE_PCT = fl (35/1000),
      RAISE_STD_DEV = fl (15/1000),
      AVG_LOA_DAYS = 90,
      RESCIND_RATE = fl (15/1000)\<rparr>"

definition dict_get_default :: "('k \<times> 'v) list \<Rightarrow> 'k \<Rightarrow> 'v \<Rightarrow> 'v" where
  \<comment> \<open>\<^verbatim>\<open>d.get(k, default)\<close>\<close>
  "dict_get_default d k dflt = (case map_of d k of None \<Rightarrow> dflt | Some v \<Rightarrow> v)"

section \<open>Utilities (\<^verbatim>\<open>utils.py\<close>)\<close>

datatype wid = Md5Hex real
  \<comment> \<open>\<^verbatim>\<open>hashlib.md5(str(r).encode()).hexdigest()\<close> of a draw \<open>r\<close>; the digest is kept
      symbolic.\<close>

definition generate_wid :: "rng \<Rightarrow> wid \<times> rng" where
  "generate_wid g = (let (r, g') = rng_random g in (Md5Hex r, g'))"

definition generate_employee_id :: "int \<Rightarrow> string" where
  "generate_employee_id seq_num = CHR ''3'' # fmt_0d 7 seq_num"

definition generate_position_id :: "int \<Rightarrow> string" where
  "generate_position_id seq_num = ''P-'' @ fmt_0d 6 seq_num"

definition weighted_choice :: "rng \<Rightarrow> 'a list \<Rightarrow> ('a \<Rightarrow> real) \<Rightarrow> ('a \<times> rng) option" where
  \<comment> \<open>Also \<^verbatim>\<open>weighted_choice_from_named_tuples\<close>: the weight is read off each item.\<close>
  "weighted_choice g items weight = rng_choices g items (map weight items)"

definition weighted_choice_from_tuples :: "rng \<Rightarrow> ('a \<times> real) list \<Rightarrow> ('a \<times> rng) option" where
  "weighted_choice_from_tuples g items = rng_choices g (map fst items) (map snd items)"

definition month_end :: "int \<Rightarrow> int \<Rightarrow> date option" where
  "month_end year month =
     (if month = 12 then py_date year 12 31
      else do { d \<leftarrow> py_date year (month + 1) 1; date_add_days d (- 1) })"

definition random_date_in_month :: "rng \<Rightarrow> int \<Rightarrow> int \<Rightarrow> date option \<Rightarrow> (date \<times> rng) option" where
  "random_date_in_month g year month earliest = do {
     first0 \<leftarrow> py_date year month 1;
     last_d \<leftarrow> month_end year month;
     let first_d = (case earliest of
                      None \<Rightarrow> first0
                    | Some e \<Rightarrow> if date_lt first0 e then e else first0);
     if date_lt last_d first_d then Some (last_d, g)
     else do {
       let days_range = date_diff_days last_d first_d;
       (k, g') \<leftarrow> rng_randint g 0 (max 0 days_range);
       d \<leftarrow> date_add_days first_d k;
       Some (d, g')
     }
   }"

definition entry_date_from_effective :: "rng \<Rightarrow> date \<Rightarrow> (datetime \<times> rng) option" where
  "entry_date_from_effective g effective_date_v = do {
     (lag_days, g1) \<leftarrow> rng_randint g 0 5;
     (lag_hours, g2) \<leftarrow> rng_randint g1 8 17;
     (lag_minutes, g3) \<leftarrow> rng_randint g2 0 59;
     (lag_seconds, g4) \<leftarrow> rng_randint g3 0 59;
     entry_dt \<leftarrow> datetime_add (DateTime effective_date_v 0 0 0)
                   lag_days lag_hours lag_minutes lag_seconds;
     Some (entry_dt, g4)
   }"

definition salary_for_grade :: "config \<Rightarrow> rng \<Rightarrow> string \<Rightarrow> (real \<times> rng) option" where
  \<comment> \<open>\<^term>\<open>None\<close> is the OverflowError of a grade bound too large for a float.\<close>
  "salary_for_grade cfg g grade_id_v =
     (case find (\<lambda>gr. g_id gr = grade_id_v) (GRADES cfg) of
        None \<Rightarrow> Some (50000, g)
      | Some gr \<Rightarrow> do {
          sigma \<leftarrow> int_truediv (g_max gr - g_min gr) 4;
          mu \<leftarrow> float_of_int (g_mid gr);
          let (salary, g') = rng_gauss g mu sigma;
          let salary' = max (real_of_int (g_min gr)) (min (real_of_int (g_max gr)) salary);
          Some (py_round2 salary', g')
        })"

fun index_of :: "'a list \<Rightarrow> 'a \<Rightarrow> nat option" where
  \<comment> \<open>\<^verbatim>\<open>list.index\<close>; \<^term>\<open>None\<close> is its ValueError.\<close>
  "index_of [] x = None"
| "index_of (y # ys) x = (if y = x then Some 0 else map_option Suc (index_of ys x))"

definition next_grade :: "config \<Rightarrow> string \<Rightarrow> string \<Rightarrow> string option" where
  "next_grade cfg current_grade_id direction =
     (let grade_ids = map g_id (GRADES cfg)
      in case index_of grade_ids current_grade_id of
           None \<Rightarrow> None
         | Some idx \<Rightarrow>
             if direction = ''up'' \<and> int idx < int (length grade_ids) - 1
             then Some (grade_ids ! (idx + 1))
             else if direction = ''down'' \<and> 0 < idx then Some (grade_ids ! (idx - 1))
             else None)"

definition location_for_company :: "config \<Rightarrow> rng \<Rightarrow> string \<Rightarrow> (location \<times> rng) option" where
  "location_for_company cfg g company_id_v =
     (let country = dict_get_default (COMPANY_COUNTRY cfg) company_id_v ''CA'';
          locs = (if country = ''CA'' then LOCATIONS_CA cfg else LOCATIONS_US cfg)
      in weighted_choice g locs loc_weight)"

definition generate_dob :: "config \<Rightarrow> rng \<Rightarrow> date \<Rightarrow> (date \<times> rng) option" where
  "generate_dob cfg g hire_date_v = do {
     (gen, g1) \<leftarrow> weighted_choice g (GENERATION_BANDS cfg) (\<lambda>b. snd (snd (snd b)));
     (birth_year, g2) \<leftarrow> rng_randint g1 (fst (snd gen)) (fst (snd (snd gen)));
     (birth_month, g3) \<leftarrow> rng_randint g2 1 12;
     (birth_day, g4) \<leftarrow> rng_randint g3 1 28;
     dob \<leftarrow> py_date birth_year birth_month birth_day;
     let safe_day = min (date_day hire_date_v) 28;
     min_dob \<leftarrow> py_date (date_year hire_date_v - 65) (date_month hire_date_v) safe_day;
     max_dob \<leftarrow> py_date (date_year hire_date_v - 18) (date_month hire_date_v) safe_day;
     dob1 \<leftarrow> (if date_lt max_dob dob
              then py_date (date_year max_dob) birth_month (min birth_day 28) else Some dob);
     dob2 \<leftarrow> (if date_lt dob1 min_dob
              then py_date (date_year min_dob) birth_month (min birth_day 28) else Some dob1);
     Some (dob2, g4)
   }"

definition py_index :: "'a list \<Rightarrow> int \<Rightarrow> 'a option" where
  \<comment> \<open>\<^verbatim>\<open>xs[i]\<close>: a negative index counts from the end; \<^term>\<open>None\<close> is the IndexError.\<close>
  "py_index xs i =
     (if 0 \<le> i \<and> i < int (length xs) then Some (xs ! nat i)
      else if i < 0 \<and> 0 \<le> int (length xs) + i then Some (xs ! nat (int (length xs) + i))
      else None)"

definition py_prefix :: "'a list \<Rightarrow> int \<Rightarrow> 'a list" where
  \<comment> \<open>\<^verbatim>\<open>xs[:n]\<close>: a negative bound counts from the end.\<close>
  "py_prefix xs n = (if 0 \<le> n then take (nat n) xs else take (length xs - nat (- n)) xs)"

section \<open>The timeline generator (\<^verbatim>\<open>employee_timeline.py\<close>)\<close>

text \<open>
  \<open>event\<close> is the dataclass \<^verbatim>\<open>EmployeeEvent\<close> with the fields that some method assigns; the
  fields left out keep their dataclass default in every event. Dates that the source stores
  as ISO strings are strings here.
\<close>

record event =
  employee_id :: string
  effective_date :: date
  entry_datetime :: datetime
  sequence_number :: int
  transaction_wid :: wid
  transaction_type :: string
  action :: string
  action_code :: string
  action_reason :: string
  action_reason_code :: string
  position_id :: string
  job_profile_id :: string
  job_title :: string
  business_title :: string
  grade_id :: string
  location_id :: string
  business_site_id :: string
  worker_type :: string
  worker_sub_type :: string
  time_type :: string
  scheduled_weekly_hours :: real
  default_weekly_hours :: real
  scheduled_fte :: real
  work_model_type :: string
  work_model_start_date :: string
  company_id :: string
  cost_center_id :: string
  sup_org_id :: string
  matrix_org_id :: string
  comp_package :: string
  comp_grade :: string
  comp_grade_profile :: string
  comp_step :: string
  pay_range_min :: real
  pay_range_mid :: real
  pay_range_max :: real
  base_pay :: real
  base_pay_currency :: string
  base_pay_frequency :: string
  benefits_annual_rate :: real
  pay_rate_type :: string
  compensation :: real
  worker_status :: string
  active :: bool
  hire_date :: string
  original_hire_date :: string
  terminated :: bool
  termination_date :: string
  pay_through_date :: string
  primary_termination_reason :: string
  primary_termination_category :: string
  termination_involuntary :: bool
  regrettable_termination :: bool
  not_eligible_for_hire :: bool
  rehire :: bool
  eligible_for_rehire :: string
  resignation_date :: string
  last_day_of_work :: string
  last_date_for_which_paid :: string
  retired :: bool
  expected_date_of_return :: string
  manager_id :: string
  worker_workday_id :: wid
  supervisory_organization :: string
  location_name :: string
  employment_end_date :: string
  continuous_service_date :: string
  first_day_of_work :: string
  active_status_date :: string
  hire_reason :: string
  seniority_date :: string
  benefits_service_date :: string
  company_service_date :: string
  time_off_service_date :: string
  probation_start_date :: string
  probation_end_date :: string
  home_country :: string
  job_entry_dt :: string

record job_profile =
  Job_Profile_ID :: string
  Job_Profile_Name :: string
  Compensation_Grade :: string

text \<open>
  \<open>profile\<close> is \<^verbatim>\<open>EmployeeProfile\<close> reduced to the drawn values; the remaining fields are
  constants or strings assembled from these values and the location of the hire.
\<close>

record profile =
  p_employee_id :: string
  p_worker_workday_id :: wid
  p_date_of_birth :: date
  p_gender :: string
  p_race_ethnicity :: string
  p_legal_first_name :: string
  p_last_name :: string
  p_preferred_first_name :: string
  p_home_address_country :: string
  p_military_status :: string
  p_junior_senior :: string
  p_product_sector_group :: string
  p_consolidated_title :: string
  p_generation :: string

record rescinded =
  workday_id :: wid
  idp_table :: string
  rescinded_moment :: string

record position_assignment =
  pa_position_id :: string
  pa_effective_date :: string
  pa_sup_org_id :: string
  pa_reason :: string
  pa_worker_type :: string
  pa_worker_sub_type :: string
  pa_job_profile_id :: string
  pa_job_title :: string
  pa_business_title :: string
  pa_time_type :: string
  pa_location_id :: string

type_synonym faker = "string list"

definition faker_next :: "faker \<Rightarrow> string \<times> faker" where
  \<comment> \<open>A seeded \<^verbatim>\<open>Faker\<close> instance is the list of names it will deliver, in order.\<close>
  "faker_next f = (case f of [] \<Rightarrow> ([], []) | x # rest \<Rightarrow> (x, rest))"

text \<open>
  \<open>generator\<close> is the object state of \<^verbatim>\<open>EmployeeTimelineGenerator\<close>. The dictionary
  \<^verbatim>\<open>active_employees\<close> is an association list in insertion order. The lookup
  \<^verbatim>\<open>jp_by_grade\<close> is computed from \<open>jp_list\<close> where it is read.
\<close>

record generator =
  rng :: rng
  faker_ca :: faker
  faker_us :: faker
  employee_seq :: int
  position_seq :: int
  active_employees :: "(string \<times> event) list"
  all_events :: "event list"
  profiles :: "profile list"
  rescinded_wids :: "rescinded list"
  position_assignments :: "position_assignment list"
  dept_ids :: "string list"
  cc_ids :: "string list"
  jp_list :: "job_profile list"
  matrix_org_ids :: "string list"

record ref_data =
  rd_departments :: "(string \<times> int) list"
  rd_cost_centers :: "string list"
  rd_job_profiles :: "job_profile list"
  rd_matrix_orgs :: "string list"

definition init_generator :: "ref_data \<Rightarrow> rng \<Rightarrow> faker \<Rightarrow> faker \<Rightarrow> generator" where
  \<comment> \<open>\<^verbatim>\<open>__init__\<close>: a department row is its id and its level.\<close>
  "init_generator rd g fca fus =
     \<lparr>rng = g, faker_ca = fca, faker_us = fus, employee_seq = 0, position_seq = 0,
      active_employees = [], all_events = [], profiles = [], rescinded_wids = [],
      position_assignments = [],
      dept_ids = map fst (filter (\<lambda>d. 2 \<le> snd d) (rd_departments rd)),
      cc_ids = rd_cost_centers rd,
      jp_list = rd_job_profiles rd,
      matrix_org_ids = rd_matrix_orgs rd\<rparr>"

definition calc_monthly_terms ::
  "config \<Rightarrow> int \<Rightarrow> int \<Rightarrow> rng \<Rightarrow> (int \<times> rng) option" where
  \<comment> \<open>\<^term>\<open>None\<close> is the OverflowError of \<^verbatim>\<open>int\<close> on an overflowed product.\<close>
  "calc_monthly_terms cfg year current_hc g = do {
     let annual_rate = dict_get_default (ANNUAL_ATTRITION_RATE cfg) year (fl (14/100));
     monthly_rate \<leftarrow> fdiv annual_rate 12;
     let (u, g') = rng_uniform g (fl (7/10)) (fl (13/10));
     let monthly_rate' = fmul monthly_rate u;
     hc \<leftarrow> float_of_int current_hc;
     n \<leftarrow> py_int (fmul hc monthly_rate');
     Some (n, g')
   }"

definition clone_event :: "event \<Rightarrow> date \<Rightarrow> rng \<Rightarrow> (event \<times> rng) option" where
  "clone_event source new_date g = do {
     (entry_dt, g1) \<leftarrow> entry_date_from_effective g new_date;
     let (w, g2) = generate_wid g1;
     Some (source\<lparr>effective_date := new_date, entry_datetime := entry_dt,
                  transaction_wid := w,
                  sequence_number := sequence_number source + 1\<rparr>, g2)
   }"

definition term_reason ::
  "config \<Rightarrow> string \<Rightarrow> rng \<Rightarrow> ((string \<times> string \<times> bool \<times> bool) \<times> rng) option" where
  \<comment> \<open>The chain on \<^verbatim>\<open>cat\<close> in \<^verbatim>\<open>_process_terminations\<close>: reason code, reason name,
      involuntary, regrettable.\<close>
  "term_reason cfg cat g =
     (if cat = ''Voluntary'' then do {
        (reason_tuple, g1) \<leftarrow> weighted_choice g (VOLUNTARY_REASONS cfg) (\<lambda>t. snd (snd t));
        let (r, g2) = rng_random g1;
        Some ((fst reason_tuple, fst (snd reason_tuple), False,
               r < REGRETTABLE_TERM_RATE cfg), g2)
      }
      else if cat = ''Involuntary'' then do {
        (reason_tuple, g1) \<leftarrow> weighted_choice g (INVOLUNTARY_REASONS cfg) (\<lambda>t. snd (snd t));
        Some ((fst reason_tuple, fst (snd reason_tuple), True, False), g1)
      }
      else if cat = ''Retirement'' then Some ((''TER-RET'', ''Retirement'', False, False), g)
      else if cat = ''Death'' then Some ((''TER-DEA'', ''Death'', False, False), g)
      else Some ((''TER-EOC'', ''End of Contract'', False, False), g))"

definition terminate_one :: "config \<Rightarrow> int \<Rightarrow> int \<Rightarrow> string \<Rightarrow> generator \<Rightarrow> generator option" where
  \<comment> \<open>One pass of the loop of \<^verbatim>\<open>_process_terminations\<close>.\<close>
  "terminate_one cfg year month emp_id s = do {
     last_event \<leftarrow> map_of (active_employees s) emp_id;
     if date_year (effective_date last_event) = year
        \<and> date_month (effective_date last_event) = month
     then Some s
     else do {
       (term_date, g1) \<leftarrow> random_date_in_month (rng s) year month (Some (COMPANY_FOUNDED cfg));
       (cat, g2) \<leftarrow> weighted_choice_from_tuples g1 (TERM_REASON_MIX cfg);
       ((reason_code, reason_name, involuntary, regrettable), g3) \<leftarrow> term_reason cfg cat g2;
       (ev, g4) \<leftarrow> clone_event last_event term_date g3;
       (pay_days, g5) \<leftarrow> rng_randint g4 0 14;
       pay_through \<leftarrow> date_add_days term_date pay_days;
       let (not_eligible, g6) =
             (if involuntary then (let (r, g') = rng_random g5 in (r < fl (3/10), g'))
              else (False, g5));
       (resignation, g7) \<leftarrow>
             (if cat = ''Voluntary'' then do {
                (k, g') \<leftarrow> rng_randint g6 14 30;
                resign_date \<leftarrow> date_add_days term_date (- k);
                Some (date_isoformat (date_max resign_date (COMPANY_FOUNDED cfg)), g')
              }
              else Some (resignation_date ev, g6));
       let ev' = ev\<lparr>transaction_type := ''Termination'',
                    action := ''Termination'',
                    action_code := ''TER'',
                    action_reason := reason_name,
                    action_reason_code := reason_code,
                    worker_status := ''Terminated'',
                    active := False,
                    terminated := True,
                    termination_date := date_isoformat term_date,
                    pay_through_date := date_isoformat pay_through,
                    primary_termination_reason := reason_code,
                    primary_termination_category := cat,
                    termination_involuntary := involuntary,
                    regrettable_termination := regrettable,
                    not_eligible_for_hire := not_eligible,
                    eligible_for_rehire := (if not_eligible then ''N'' else ''Y''),
                    last_day_of_work := date_isoformat term_date,
                    last_date_for_which_paid := date_isoformat pay_through,
                    employment_end_date := date_isoformat term_date,
                    retired := (cat = ''Retirement''),
                    resignation_date := resignation\<rparr>;
       Some (s\<lparr>rng := g7,
               all_events := all_events s @ [ev'],
               active_employees := AList.delete emp_id (active_employees s)\<rparr>)
     }
   }"

fun terminations_loop ::
  "config \<Rightarrow> int \<Rightarrow> int \<Rightarrow> string list \<Rightarrow> generator \<Rightarrow> generator option" where
  "terminations_loop cfg year month [] s = Some s"
| "terminations_loop cfg year month (emp_id # rest) s = do {
     s' \<leftarrow> terminate_one cfg year month emp_id s;
     terminations_loop cfg year month rest s'
   }"

definition process_terminations ::
  "config \<Rightarrow> int \<Rightarrow> int \<Rightarrow> int \<Rightarrow> generator \<Rightarrow> generator option" where
  "process_terminations cfg year month cnt s =
     (if active_employees s = [] then Some s
      else let (emp_ids, g1) = rng_shuffle (rng s) (map fst (active_employees s));
               cnt' = min cnt (int (length emp_ids))
           in terminations_loop cfg year month (take (nat cnt') emp_ids) (s\<lparr>rng := g1\<rparr>))"

definition apply_comp_change ::
  "config \<Rightarrow> string \<Rightarrow> int \<Rightarrow> int \<Rightarrow> generator \<Rightarrow> generator option" where
  "apply_comp_change cfg emp_id year month s = do {
     last_event \<leftarrow> map_of (active_employees s) emp_id;
     (eff_date, g1) \<leftarrow> random_date_in_month (rng s) year month (Some (COMPANY_FOUNDED cfg));
     (ev, g2) \<leftarrow> clone_event last_event eff_date g1;
     let (x, g3) = rng_gauss g2 (AVG_ANNUAL_RAISE_PCT cfg) (RAISE_STD_DEV cfg);
     let raise_pct = max 0 x;
     let new_base = py_round2 (fmul (base_pay last_event) (fadd 1 raise_pct));
     let new_base' = (case find (\<lambda>gr. g_id gr = grade_id ev) (GRADES cfg) of
                        None \<Rightarrow> new_base
                      | Some gr \<Rightarrow>
                          max (real_of_int (g_min gr)) (min (real_of_int (g_max gr)) new_base));
     let ev' = ev\<lparr>transaction_type := ''Data Change'',
                  action := ''Data Change'',
                  action_code := ''DAT_CHG'',
                  action_reason := ''Compensation Change'',
                  action_reason_code := ''DAT_COMP'',
                  base_pay := new_base',
                  compensation := new_base',
                  benefits_annual_rate := new_base'\<rparr>;
     Some (s\<lparr>rng := g3,
             all_events := all_events s @ [ev'],
             active_employees := AList.update emp_id ev' (active_employees s)\<rparr>)
   }"

definition pick_job_profile_for_grade ::
  "generator \<Rightarrow> rng \<Rightarrow> string \<Rightarrow> (job_profile option \<times> rng) option" where
  "pick_job_profile_for_grade s g grade_id_v =
     (let matching = filter (\<lambda>jp. Compensation_Grade jp = grade_id_v) (jp_list s)
      in if matching \<noteq> [] then map_option (\<lambda>(jp, g'). (Some jp, g')) (rng_choice g matching)
         else if jp_list s \<noteq> []
         then map_option (\<lambda>(jp, g'). (Some jp, g')) (rng_choice g (jp_list s))
         else Some (None, g))"

definition set_job_profile :: "job_profile option \<Rightarrow> event \<Rightarrow> event" where
  \<comment> \<open>The three assignments under \<^verbatim>\<open>if jp:\<close>.\<close>
  "set_job_profile jp ev =
     (case jp of
        None \<Rightarrow> ev
      | Some j \<Rightarrow> ev\<lparr>job_profile_id := Job_Profile_ID j,
                      job_title := Job_Profile_Name j,
                      business_title := Job_Profile_Name j\<rparr>)"

definition work_model_choice :: "config \<Rightarrow> int \<Rightarrow> rng \<Rightarrow> (string \<times> rng) option" where
  \<comment> \<open>The work model drawn with the weights of the period of \<^verbatim>\<open>year\<close>.\<close>
  "work_model_choice cfg year g =
     (let wm_weights =
            (if 2020 \<le> year then map (\<lambda>wm. (wm_type wm, wm_weight_post_2020 wm)) (WORK_MODELS cfg)
             else map (\<lambda>wm. (wm_type wm, wm_weight_pre_2020 wm)) (WORK_MODELS cfg))
      in map_option (\<lambda>(wm, g'). (fst wm, g')) (weighted_choice g wm_weights snd))"

definition choice_if_any :: "rng \<Rightarrow> string list \<Rightarrow> string \<Rightarrow> (string \<times> rng) option" where
  \<comment> \<open>\<^verbatim>\<open>rng.choice(xs)\<close> under \<^verbatim>\<open>if xs:\<close>, else the value kept.\<close>
  "choice_if_any g xs keep = (if xs \<noteq> [] then rng_choice g xs else Some (keep, g))"

definition career_branch ::
  "config \<Rightarrow> generator \<Rightarrow> int \<Rightarrow> career_action \<Rightarrow> event \<Rightarrow> date \<Rightarrow> event \<Rightarrow> rng
     \<Rightarrow> (event \<times> rng) option" where
  \<comment> \<open>The chain on \<^verbatim>\<open>code\<close> in \<^verbatim>\<open>_apply_career_action\<close>, applied to the cloned event.\<close>
  "career_branch cfg s year act last_event eff_date ev g =
     (let code = ca_reason_code act
      in if code = ''CHG_PROMO'' then
           (case next_grade cfg (grade_id last_event) ''up'' of
              None \<Rightarrow> Some (ev, g)
            | Some new_grade \<Rightarrow>
                if new_grade = [] then Some (ev, g)
                else do {
                  (jp, g1) \<leftarrow> pick_job_profile_for_grade s g new_grade;
                  let ev1 = set_job_profile jp (ev\<lparr>grade_id := new_grade,
                                                   comp_grade := new_grade\<rparr>);
                  (pay, g2) \<leftarrow> salary_for_grade cfg g1 new_grade;
                  let ev2 = ev1\<lparr>base_pay := pay, compensation := pay,
                                benefits_annual_rate := pay\<rparr>;
                  let ev3 = (case find (\<lambda>gr. g_id gr = new_grade) (GRADES cfg) of
                               None \<Rightarrow> ev2
                             | Some gr \<Rightarrow>
                                 ev2\<lparr>pay_range_min := real_of_int (g_min gr),
                                     pay_range_mid := real_of_int (g_mid gr),
                                     pay_range_max := real_of_int (g_max gr),
                                     comp_grade_profile := g_profile_id gr\<rparr>);
                  Some (ev3, g2)
                })
         else if code = ''CHG_DEMO'' then
           (case next_grade cfg (grade_id last_event) ''down'' of
              None \<Rightarrow> Some (ev, g)
            | Some new_grade \<Rightarrow>
                if new_grade = [] then Some (ev, g)
                else do {
                  (pay, g1) \<leftarrow> salary_for_grade cfg g new_grade;
                  Some (ev\<lparr>grade_id := new_grade, comp_grade := new_grade,
                           base_pay := pay, compensation := pay,
                           benefits_annual_rate := pay\<rparr>, g1)
                })
         else if code = ''CHG_LAT'' then do {
           (jp, g1) \<leftarrow> pick_job_profile_for_grade s g (grade_id ev);
           let ev1 = set_job_profile jp ev;
           let (r, g2) = rng_random g1;
           if r < 1/2 \<and> dept_ids s \<noteq> []
           then do { (d, g3) \<leftarrow> rng_choice g2 (dept_ids s); Some (ev1\<lparr>sup_org_id := d\<rparr>, g3) }
           else Some (ev1, g2)
         }
         else if code = ''CHG_XFER'' then do {
           (company_id_v, g1) \<leftarrow> rng_choice g (COMPANIES cfg);
           (loc, g2) \<leftarrow> location_for_company cfg g1 company_id_v;
           (d, g3) \<leftarrow> choice_if_any g2 (dept_ids s) (sup_org_id ev);
           (c, g4) \<leftarrow> choice_if_any g3 (cc_ids s) (cost_center_id ev);
           Some (ev\<lparr>company_id := company_id_v, location_id := loc_id loc,
                    business_site_id := loc_id loc, sup_org_id := d,
                    cost_center_id := c\<rparr>, g4)
         }
         else if code = ''DAT_LOC'' then do {
           (loc, g1) \<leftarrow> location_for_company cfg g (company_id ev);
           (wm, g2) \<leftarrow> work_model_choice cfg year g1;
           Some (ev\<lparr>location_id := loc_id loc, business_site_id := loc_id loc,
                    work_model_type := wm,
                    work_model_start_date := date_isoformat eff_date\<rparr>, g2)
         }
         else if code = ''DAT_ORG'' then do {
           (d, g1) \<leftarrow> choice_if_any g (dept_ids s) (sup_org_id ev);
           (c, g2) \<leftarrow> choice_if_any g1 (cc_ids s) (cost_center_id ev);
           Some (ev\<lparr>sup_org_id := d, cost_center_id := c\<rparr>, g2)
         }
         else if code = ''LOA_GEN'' then do {
           ret \<leftarrow> date_add_days eff_date (AVG_LOA_DAYS cfg);
           Some (ev\<lparr>worker_status := ''On Leave'',
                    expected_date_of_return := date_isoformat ret\<rparr>, g)
         }
         else if code = ''RFL_GEN'' then
           Some (ev\<lparr>worker_status := ''Active'', active := True,
                    expected_date_of_return := []\<rparr>, g)
         else Some (ev, g))"

definition apply_career_action ::
  "config \<Rightarrow> string \<Rightarrow> int \<Rightarrow> int \<Rightarrow> career_action \<Rightarrow> generator \<Rightarrow> generator option" where
  "apply_career_action cfg emp_id year month act s = do {
     last_event \<leftarrow> map_of (active_employees s) emp_id;
     (eff_date, g1) \<leftarrow> random_date_in_month (rng s) year month (Some (COMPANY_FOUNDED cfg));
     (ev, g2) \<leftarrow> clone_event last_event eff_date g1;
     let ev1 = ev\<lparr>transaction_type := ca_action act,
                  action := ca_action act,
                  action_code := ca_code act,
                  action_reason := ca_reason act,
                  action_reason_code := ca_reason_code act\<rparr>;
     (ev2, g3) \<leftarrow> career_branch cfg s year act last_event eff_date ev1 g2;
     Some (s\<lparr>rng := g3,
             all_events := all_events s @ [ev2],
             active_employees := AList.update emp_id ev2 (active_employees s)\<rparr>)
   }"

definition career_one :: "config \<Rightarrow> int \<Rightarrow> int \<Rightarrow> string \<Rightarrow> generator \<Rightarrow> generator option" where
  \<comment> \<open>One pass of the loop of \<^verbatim>\<open>_process_career_events\<close>.\<close>
  "career_one cfg year month emp_id s = do {
     last_event \<leftarrow> map_of (active_employees s) emp_id;
     let months_since_hire = (year - date_year (effective_date last_event)) * 12
                               + month - date_month (effective_date last_event);
     if months_since_hire < 3 then Some s
     else do {
       (comp, g1) \<leftarrow>
             (if month = 1 \<or> month = 2 \<or> month = 3
              then do {
                let (r, g') = rng_random (rng s);
                threshold \<leftarrow> fdiv (ANNUAL_COMP_CHANGE_RATE cfg) 3;
                Some (r < threshold, g')
              }
              else Some (False, rng s));
       if comp then apply_comp_change cfg emp_id year month (s\<lparr>rng := g1\<rparr>)
       else do {
         avg_months \<leftarrow> float_of_int (AVG_MONTHS_BETWEEN_EVENTS cfg);
         monthly_event_prob \<leftarrow> fdiv 1 avg_months;
         let (r, g2) = rng_random g1;
         if r < monthly_event_prob
         then do {
           (act, g3) \<leftarrow> weighted_choice g2 (CAREER_ACTIONS cfg) ca_weight;
           apply_career_action cfg emp_id year month act (s\<lparr>rng := g3\<rparr>)
         }
         else Some (s\<lparr>rng := g2\<rparr>)
       }
     }
   }"

fun career_loop ::
  "config \<Rightarrow> int \<Rightarrow> int \<Rightarrow> string list \<Rightarrow> generator \<Rightarrow> generator option" where
  "career_loop cfg year month [] s = Some s"
| "career_loop cfg year month (emp_id # rest) s = do {
     s' \<leftarrow> career_one cfg year month emp_id s;
     career_loop cfg year month rest s'
   }"

definition process_career_events :: "config \<Rightarrow> int \<Rightarrow> int \<Rightarrow> generator \<Rightarrow> generator option" where
  "process_career_events cfg year month s =
     career_loop cfg year month (map fst (active_employees s)) s"

fun manager_candidates :: "int \<Rightarrow> (string \<times> event) list \<Rightarrow> string list option" where
  \<comment> \<open>The loop of \<^verbatim>\<open>_pick_manager\<close> over \<^verbatim>\<open>active_employees.items()\<close>.\<close>
  "manager_candidates min_mgr_grade_idx [] = Some []"
| "manager_candidates min_mgr_grade_idx ((emp_id, evt) # rest) = do {
     n \<leftarrow> py_int_of_str (tl (grade_id evt));
     cs \<leftarrow> manager_candidates min_mgr_grade_idx rest;
     Some (if min_mgr_grade_idx \<le> n - 1 then emp_id # cs else cs)
   }"

definition pick_manager :: "generator \<Rightarrow> rng \<Rightarrow> string \<Rightarrow> (string \<times> rng) option" where
  "pick_manager s g employee_grade_id = do {
     n \<leftarrow> py_int_of_str (tl employee_grade_id);
     let grade_idx = n - 1;
     let min_mgr_grade_idx = grade_idx + 1;
     candidates \<leftarrow> manager_candidates min_mgr_grade_idx (active_employees s);
     if candidates \<noteq> [] then rng_choice g (take 100 candidates) else Some ([], g)
   }"

definition generation_from_birth_year :: "config \<Rightarrow> int \<Rightarrow> string" where
  "generation_from_birth_year cfg birth_year =
     (case find (\<lambda>b. fst (snd b) \<le> birth_year \<and> birth_year \<le> fst (snd (snd b)))
             (GENERATION_BANDS cfg) of
        None \<Rightarrow> ''Unknown''
      | Some b \<Rightarrow> fst b)"

definition gen_profile ::
  "config \<Rightarrow> string \<Rightarrow> wid \<Rightarrow> date \<Rightarrow> string \<Rightarrow> string \<Rightarrow> generator \<Rightarrow> generator option" where
  "gen_profile cfg emp_id worker_wid hire_date_v country grade_id_v s = do {
     let fk = (if country = ''CA'' then faker_ca s else faker_us s);
     (gender, g1) \<leftarrow> weighted_choice_from_tuples (rng s) (GENDER_DISTRIBUTION cfg);
     let (first_name, fk1) = faker_next fk;
     let (last_name, fk2) = faker_next fk1;
     (dob, g2) \<leftarrow> generate_dob cfg g1 hire_date_v;
     let generation = generation_from_birth_year cfg (date_year dob);
     (race, g3) \<leftarrow> weighted_choice_from_tuples g2 (RACE_ETHNICITY_DISTRIBUTION cfg);
     let (r, g4) = rng_random g3;
     let (preferred_first, fk3) = (if fl (1/10) < r then (first_name, fk2) else faker_next fk2);
     (military, g5) \<leftarrow> rng_choice g4
        [''Not Applicable'', ''Not Applicable'', ''Veteran'', ''Active Duty''];
     (junior_senior, g6) \<leftarrow> rng_choice g5 [[], ''Jr'', ''Sr'', []];
     (sector, g7) \<leftarrow> rng_choice g6 [[], ''Retail'', ''Institutional'', ''Wealth'', []];
     n \<leftarrow> py_int_of_str (tl grade_id_v);
     title_grade \<leftarrow> py_index (GRADES cfg) (min (n - 1) (int (length (GRADES cfg)) - 1));
     let p = \<lparr>p_employee_id = emp_id, p_worker_workday_id = worker_wid,
              p_date_of_birth = dob, p_gender = gender, p_race_ethnicity = race,
              p_legal_first_name = first_name, p_last_name = last_name,
              p_preferred_first_name = preferred_first, p_home_address_country = country,
              p_military_status = military, p_junior_senior = junior_senior,
              p_product_sector_group = sector, p_consolidated_title = g_name title_grade,
              p_generation = generation\<rparr>;
     let s1 = (if country = ''CA'' then s\<lparr>faker_ca := fk3\<rparr> else s\<lparr>faker_us := fk3\<rparr>);
     Some (s1\<lparr>rng := g7, profiles := profiles s1 @ [p]\<rparr>)
   }"

definition hire_one :: "config \<Rightarrow> int \<Rightarrow> int \<Rightarrow> generator \<Rightarrow> generator option" where
  \<comment> \<open>One pass of the loop of \<^verbatim>\<open>_process_hires\<close>.\<close>
  "hire_one cfg year month s0 = do {
     let s = s0\<lparr>employee_seq := employee_seq s0 + 1, position_seq := position_seq s0 + 1\<rparr>;
     let emp_id = generate_employee_id (employee_seq s);
     let pos_id = generate_position_id (position_seq s);
     let (wid, g1) = generate_wid (rng s);
     let (worker_wid, g2) = generate_wid g1;
     (hire_date, g3) \<leftarrow> random_date_in_month g2 year month (Some (COMPANY_FOUNDED cfg));
     (company_id_v, g4) \<leftarrow> weighted_choice g3 (COMPANIES cfg)
                            (\<lambda>c. dict_get_default (COMPANY_WEIGHTS cfg) c (fl (1/10)));
     country \<leftarrow> map_of (COMPANY_COUNTRY cfg) company_id_v;
     (loc, g5) \<leftarrow> location_for_company cfg g4 company_id_v;
     (grade_w, g6) \<leftarrow> weighted_choice g5 (GRADE_WEIGHTS cfg) snd;
     let grade_id_v = fst grade_w;
     grade0 \<leftarrow> py_index (GRADES cfg) 0;
     let grade_obj = (case find (\<lambda>gr. g_id gr = grade_id_v) (GRADES cfg) of
                        None \<Rightarrow> grade0 | Some gr \<Rightarrow> gr);
     (jp_opt, g7) \<leftarrow> pick_job_profile_for_grade s g6 grade_id_v;
     (jp, g8) \<leftarrow> (case jp_opt of
                    Some j \<Rightarrow> Some (j, g7)
                  | None \<Rightarrow> rng_choice g7 (jp_list s));
     (dept_id, g9) \<leftarrow> choice_if_any g8 (dept_ids s) [];
     (cc_id, g10) \<leftarrow> choice_if_any g9 (cc_ids s) [];
     let (r, g11) = rng_random g10;
     (matrix_id, g12) \<leftarrow> (if r < fl (3/10) then rng_choice g11 (matrix_org_ids s)
                           else Some ([], g11));
     (wt, g13) \<leftarrow> weighted_choice g12 (WORKER_TYPES cfg) wt_weight;
     (tt, g14) \<leftarrow> weighted_choice g13 (TIME_TYPES cfg) tt_weight;
     (wm, g15) \<leftarrow> work_model_choice cfg year g14;
     (pay0, g16) \<leftarrow> salary_for_grade cfg g15 grade_id_v;
     let base_pay_v = (if country = ''US'' then py_round2 (fmul pay0 (fl (105/100))) else pay0);
     (manager_id_v, g17) \<leftarrow> pick_manager s g16 grade_id_v;
     (entry_dt, g18) \<leftarrow> entry_date_from_effective g17 hire_date;
     probation_end_d \<leftarrow> date_add_days hire_date 90;
     let probation_end = date_isoformat probation_end_d;
     let ev = \<lparr>
            employee_id = emp_id,
            effective_date = hire_date,
            entry_datetime = entry_dt,
            sequence_number = 1,
            transaction_wid = wid,
            transaction_type = ''Hire'',
            action = ''Hire'',
            action_code = ''HIR'',
            action_reason = ''Hire'',
            action_reason_code = ''HIR_NEW'',
            position_id = pos_id,
            job_profile_id = Job_Profile_ID jp,
            job_title = Job_Profile_Name jp,
            business_title = Job_Profile_Name jp,
            grade_id = grade_id_v,
            location_id = loc_id loc,
            business_site_id = loc_id loc,
            worker_type = wt_type wt,
            worker_sub_type = wt_sub_type wt,
            time_type = tt_name tt,
            scheduled_weekly_hours = tt_hours tt,
            default_weekly_hours = 375/10,
            scheduled_fte = tt_fte tt,
            work_model_type = wm,
            work_model_start_date = date_isoformat hire_date,
            company_id = company_id_v,
            cost_center_id = cc_id,
            sup_org_id = dept_id,
            matrix_org_id = matrix_id,
            comp_package = ''STD_COMP_PKG'',
            comp_grade = grade_id_v,
            comp_grade_profile = g_profile_id grade_obj,
            comp_step = '''',
            pay_range_min = real_of_int (g_min grade_obj),
            pay_range_mid = real_of_int (g_mid grade_obj),
            pay_range_max = real_of_int (g_max grade_obj),
            base_pay = base_pay_v,
            base_pay_currency = (if country = ''US'' then ''USD'' else ''CAD''),
            base_pay_frequency = ''Annual'',
            benefits_annual_rate = base_pay_v,
            pay_rate_type = ''Salary'',
            compensation = base_pay_v,
            worker_status = ''Active'',
            active = True,
            hire_date = date_isoformat hire_date,
            original_hire_date = date_isoformat hire_date,
            terminated = False,
            termination_date = '''',
            pay_through_date = '''',
            primary_termination_reason = '''',
            primary_termination_category = '''',
            termination_involuntary = False,
            regrettable_termination = False,
            not_eligible_for_hire = False,
            rehire = False,
            eligible_for_rehire = ''Y'',
            resignation_date = '''',
            last_day_of_work = '''',
            last_date_for_which_paid = '''',
            retired = False,
            expected_date_of_return = '''',
            manager_id = manager_id_v,
            worker_workday_id = worker_wid,
            supervisory_organization = dept_id,
            location_name = loc_name loc,
            employment_end_date = '''',
            continuous_service_date = date_isoformat hire_date,
            first_day_of_work = date_isoformat hire_date,
            active_status_date = date_isoformat hire_date,
            hire_reason = ''New Hire'',
            seniority_date = date_isoformat hire_date,
            benefits_service_date = date_isoformat hire_date,
            company_service_date = date_isoformat hire_date,
            time_off_service_date = date_isoformat hire_date,
            probation_start_date = date_isoformat hire_date,
            probation_end_date = probation_end,
            home_country = country,
            job_entry_dt = date_isoformat hire_date\<rparr>;
     let pa = \<lparr>pa_position_id = pos_id, pa_effective_date = date_isoformat hire_date,
               pa_sup_org_id = dept_id, pa_reason = ''New Position'',
               pa_worker_type = wt_type wt, pa_worker_sub_type = wt_sub_type wt,
               pa_job_profile_id = Job_Profile_ID jp, pa_job_title = Job_Profile_Name jp,
               pa_business_title = Job_Profile_Name jp, pa_time_type = tt_name tt,
               pa_location_id = loc_id loc\<rparr>;
     gen_profile cfg emp_id worker_wid hire_date country grade_id_v
       (s\<lparr>rng := g18,
          all_events := all_events s @ [ev],
          active_employees := AList.update emp_id ev (active_employees s),
          position_assignments := position_assignments s @ [pa]\<rparr>)
   }"

fun process_hires :: "config \<Rightarrow> int \<Rightarrow> int \<Rightarrow> nat \<Rightarrow> generator \<Rightarrow> generator option" where
  \<comment> \<open>\<^verbatim>\<open>for _ in range(count)\<close>\<close>
  "process_hires cfg year month 0 s = Some s"
| "process_hires cfg year month (Suc n) s = do {
     s' \<leftarrow> hire_one cfg year month s;
     process_hires cfg year month n s'
   }"

definition month_step :: "config \<Rightarrow> int \<Rightarrow> int \<Rightarrow> generator \<Rightarrow> generator option" where
  \<comment> \<open>The body of the loop of \<^verbatim>\<open>generate_all\<close> for one month.\<close>
  "month_step cfg year month s = do {
     month_end_dt \<leftarrow> month_end year month;
     target_hc \<leftarrow> interpolate_headcount (GROWTH_ANCHORS cfg) month_end_dt;
     let current_hc = int (length (active_employees s));
     (n_terms, g1) \<leftarrow> calc_monthly_terms cfg year current_hc (rng s);
     let s1 = s\<lparr>rng := g1\<rparr>;
     s2 \<leftarrow> (if 0 < current_hc \<and> 0 < n_terms
            then process_terminations cfg year month n_terms s1 else Some s1);
     s3 \<leftarrow> process_career_events cfg year month s2;
     let current_hc' = int (length (active_employees s3));
     wanted \<leftarrow> float_of_int (max 0 (target_hc - current_hc'));
     n_hires \<leftarrow> py_int (fmul wanted (fl (105/100)));
     if 0 < n_hires then process_hires cfg year month (nat n_hires) s3 else Some s3
   }"

definition month_index :: "date \<Rightarrow> int" where
  "month_index d = date_year d * 12 + date_month d"

function generate_loop :: "config \<Rightarrow> date \<Rightarrow> generator \<Rightarrow> generator option" where
  \<comment> \<open>\<^verbatim>\<open>while current <= end\<close>; \<open>current\<close> and the end date are date objects, so a triple
      that is no calendar date is refused.\<close>
  "generate_loop cfg current s =
     (if \<not> (valid_date current \<and> valid_date (DATA_END_DATE cfg)) then None
      else if date_le current (DATA_END_DATE cfg) then do {
        s' \<leftarrow> month_step cfg (date_year current) (date_month current) s;
        nxt \<leftarrow> (if date_month current = 12 then py_date (date_year current + 1) 1 1
                else py_date (date_year current) (date_month current + 1) 1);
        generate_loop cfg nxt s'
      }
      else Some s)"
  by pat_completeness auto
termination
proof (relation "measure (\<lambda>(cfg, current, s).
          nat (month_index (DATA_END_DATE cfg) + 1 - month_index current))")
  show "wf (measure (\<lambda>(cfg, current, s).
          nat (month_index (DATA_END_DATE cfg) + 1 - month_index current)))"
    by simp
next
  fix cfg :: config and current :: date and s s' :: generator and nxt :: date
  assume v: "\<not> \<not> (valid_date current \<and> valid_date (DATA_END_DATE cfg))"
    and le: "date_le current (DATA_END_DATE cfg)"
    and nx: "(if date_month current = 12 then py_date (date_year current + 1) 1 1
              else py_date (date_year current) (date_month current + 1) 1) = Some nxt"
  from nx have step: "month_index nxt = month_index current + 1"
    by (auto simp: py_date_def month_index_def split: if_splits)
  from v have m: "1 \<le> date_month current" "date_month current \<le> 12"
    "1 \<le> date_month (DATA_END_DATE cfg)" "date_month (DATA_END_DATE cfg) \<le> 12"
    by (auto simp: valid_date_def)
  from le m have "month_index current \<le> month_index (DATA_END_DATE cfg)"
    by (auto simp: date_le_def date_lt_def month_index_def)
  with step show "((cfg, nxt, s'), (cfg, current, s))
      \<in> measure (\<lambda>(cfg, current, s).
            nat (month_index (DATA_END_DATE cfg) + 1 - month_index current))"
    by simp
qed

declare generate_loop.simps [simp del]

definition generate_all :: "config \<Rightarrow> generator \<Rightarrow> generator option" where
  "generate_all cfg s = do {
     current \<leftarrow> py_date (date_year (COMPANY_FOUNDED cfg)) (date_month (COMPANY_FOUNDED cfg)) 1;
     generate_loop cfg current s
   }"

definition table_code_for_type :: "rng \<Rightarrow> string \<Rightarrow> (string \<times> rng) option" where
  "table_code_for_type g txn_type =
     (if txn_type \<in> set [''Hire'', ''Termination'', ''Change Job'', ''Data Change'',
                          ''Leave of Absence'', ''Return from Leave'']
      then rng_choice g [''INT095E'', ''INT096'', ''INT098''] else Some (''INT095E'', g))"

fun rescind_loop :: "event list \<Rightarrow> generator \<Rightarrow> generator option" where
  "rescind_loop [] s = Some s"
| "rescind_loop (e # rest) s = do {
     (code, g') \<leftarrow> table_code_for_type (rng s) (transaction_type e);
     rescind_loop rest
       (s\<lparr>rng := g',
          rescinded_wids := rescinded_wids s
            @ [\<lparr>workday_id = transaction_wid e, idp_table = code,
                rescinded_moment = datetime_isoformat (entry_datetime e)\<rparr>]\<rparr>)
   }"

definition rescind_target :: "config \<Rightarrow> generator \<Rightarrow> int option" where
  \<comment> \<open>\<^verbatim>\<open>int(len(self.all_events) * config.RESCIND_RATE)\<close>; \<^term>\<open>None\<close> is the OverflowError
      of an overflowed product.\<close>
  "rescind_target cfg s = do {
     n_events \<leftarrow> float_of_int (int (length (all_events s)));
     py_int (fmul n_events (RESCIND_RATE cfg))
   }"

definition generate_rescinded :: "config \<Rightarrow> generator \<Rightarrow> generator option" where
  "generate_rescinded cfg s = do {
     n_rescind \<leftarrow> rescind_target cfg s;
     let candidates = filter (\<lambda>e. transaction_type e \<noteq> ''Hire'') (all_events s);
     let (shuffled, g1) = rng_shuffle (rng s) candidates;
     rescind_loop (py_prefix shuffled n_rescind) (s\<lparr>rng := g1\<rparr>)
   }"

section \<open>Auxiliary definitions for the statements\<close>

definition EmployeeEvent ::
  "string \<Rightarrow> date \<Rightarrow> datetime \<Rightarrow> int \<Rightarrow> wid \<Rightarrow> string \<Rightarrow> wid \<Rightarrow> event" where
  \<comment> \<open>The dataclass constructor with its six required arguments and the dataclass defaults;
      the worker id, a string that defaults to empty in the source, is given last.\<close>
  "EmployeeEvent emp_id eff entry_dt seq_num w txn_type worker_w =
     \<lparr>
      employee_id = emp_id,
      effective_date = eff,
      entry_datetime = entry_dt,
      sequence_number = seq_num,
      transaction_wid = w,
      transaction_type = txn_type,
      action = [],
      action_code = [],
      action_reason = [],
      action_reason_code = [],
      position_id = [],
      job_profile_id = [],
      job_title = [],
      business_title = [],
      grade_id = [],
      location_id = [],
      business_site_id = [],
      worker_type = ''Employee'',
      worker_sub_type = ''Regular'',
      time_type = ''Full_Time'',
      scheduled_weekly_hours = 375/10,
      default_weekly_hours = 375/10,
      scheduled_fte = 1,
      work_model_type = ''On-Site'',
      work_model_start_date = [],
      company_id = [],
      cost_center_id = [],
      sup_org_id = [],
      matrix_org_id = [],
      comp_package = [],
      comp_grade = [],
      comp_grade_profile = [],
      comp_step = [],
      pay_range_min = 0,
      pay_range_mid = 0,
      pay_range_max = 0,
      base_pay = 0,
      base_pay_currency = ''CAD'',
      base_pay_frequency = ''Annual'',
      benefits_annual_rate = 0,
      pay_rate_type = ''Salary'',
      compensation = 0,
      worker_status = ''Active'',
      active = True,
      hire_date = [],
      original_hire_date = [],
      terminated = False,
      termination_date = [],
      pay_through_date = [],
      primary_termination_reason = [],
      primary_termination_category = [],
      termination_involuntary = False,
      regrettable_termination = False,
      not_eligible_for_hire = False,
      rehire = False,
      eligible_for_rehire = ''Y'',
      resignation_date = [],
      last_day_of_work = [],
      last_date_for_which_paid = [],
      retired = False,
      expected_date_of_return = [],
      manager_id = [],
      worker_workday_id = worker_w,
      supervisory_organization = [],
      location_name = [],
      employment_end_date = [],
      continuous_service_date = [],
      first_day_of_work = [],
      active_status_date = [],
      hire_reason = [],
      seniority_date = [],
      benefits_service_date = [],
      company_service_date = [],
      time_off_service_date = [],
      probation_start_date = [],
      probation_end_date = [],
      home_country = [],
      job_entry_dt = []\<rparr>"

fun str_lt :: "string \<Rightarrow> string \<Rightarrow> bool" where
  \<comment> \<open>The order of Python strings; ISO timestamps of one format order as their text does.\<close>
  "str_lt [] [] = False"
| "str_lt [] (y # ys) = True"
| "str_lt (x # xs) [] = False"
| "str_lt (x # xs) (y # ys) = ((of_char x :: nat) < of_char y \<or> (x = y \<and> str_lt xs ys))"

definition non_hire_events :: "generator \<Rightarrow> event list" where
  \<comment> \<open>The candidates of the rescind pass.\<close>
  "non_hire_events s = filter (\<lambda>e. transaction_type e \<noteq> ''Hire'') (all_events s)"

definition new_rescinded :: "config \<Rightarrow> generator \<Rightarrow> rescinded list option" where
  \<comment> \<open>The records that one call of \<^verbatim>\<open>generate_rescinded\<close> appends.\<close>
  "new_rescinded cfg s =
     map_option (\<lambda>s'. drop (length (rescinded_wids s)) (rescinded_wids s'))
       (generate_rescinded cfg s)"

definition example_hire :: "nat \<Rightarrow> event" where
  "example_hire k =
     (EmployeeEvent (generate_employee_id (int k)) (Date 2016 2 15) (DateTime (Date 2016 2 16) 9 0 0)
        1 (Md5Hex (real k / 1000)) ''Hire'' (Md5Hex (real k / 1000 + 1/2000)))
       \<lparr>action := ''Hire'', grade_id := ''G01''\<rparr>"

definition example_termination :: event where
  "example_termination =
     (EmployeeEvent (generate_employee_id 1) (Date 2016 3 7) (DateTime (Date 2016 3 8) 9 30 15)
        2 (Md5Hex (1/3)) ''Termination'' (Md5Hex (1/2000)))
       \<lparr>action := ''Termination'', grade_id := ''G01'', worker_status := ''Terminated'',
        active := False, terminated := True\<rparr>"

definition empty_ref_data :: ref_data where
  "empty_ref_data =
     \<lparr>rd_departments = [], rd_cost_centers = [], rd_job_profiles = [], rd_matrix_orgs = []\<rparr>"

definition rescind_example :: generator where
  \<comment> \<open>66 hires and one termination, before the rescind pass.\<close>
  "rescind_example =
     (init_generator empty_ref_data [] [] [])
       \<lparr>employee_seq := 66, position_seq := 66,
        all_events := map example_hire [1..<67] @ [example_termination]\<rparr>"

definition rescind_selection :: "generator \<Rightarrow> int \<Rightarrow> event list" where
  \<comment> \<open>The events that \<^verbatim>\<open>generate_rescinded\<close> selects: \<^verbatim>\<open>candidates[:n_rescind]\<close> after the
      shuffle.\<close>
  "rescind_selection s n_rescind =
     py_prefix (fst (rng_shuffle (rng s) (non_hire_events s))) n_rescind"

definition ladder_ok :: "config \<Rightarrow> bool" where
  \<comment> \<open>A grade ladder: distinct non-empty ids, in every band the minimum is at most the
      maximum, and the three pay bounds are far below the largest float.\<close>
  "ladder_ok cfg =
     (distinct (map g_id (GRADES cfg))
      \<and> list_all (\<lambda>gr. g_id gr \<noteq> [] \<and> g_min gr \<le> g_max gr
                         \<and> \<bar>g_min gr\<bar> < 2 ^ 1000 \<and> \<bar>g_mid gr\<bar> < 2 ^ 1000
                         \<and> \<bar>g_max gr\<bar> < 2 ^ 1000) (GRADES cfg))"

definition example_ref_data :: ref_data where
  "example_ref_data =
     \<lparr>rd_departments = [(''DEPT_FIN'', 1), (''DEPT_FIN_001'', 2)],
      rd_cost_centers = [''CC_0001''],
      rd_job_profiles =
        [\<lparr>Job_Profile_ID = ''JP_0001'', Job_Profile_Name = ''Financial Analyst'',
          Compensation_Grade = ''G01''\<rparr>,
         \<lparr>Job_Profile_ID = ''JP_0002'', Job_Profile_Name = ''Controller'',
          Compensation_Grade = ''G02''\<rparr>],
      rd_matrix_orgs = [''MORG_ESG'']\<rparr>"

definition example_active :: "string \<Rightarrow> generator" where
  \<comment> \<open>One active employee, hired in February 2016 at the given grade.\<close>
  "example_active gid =
     (init_generator example_ref_data [] [] [])
       \<lparr>employee_seq := 1, position_seq := 1,
        all_events := [(example_hire 1)\<lparr>grade_id := gid\<rparr>],
        active_employees := [(generate_employee_id 1, (example_hire 1)\<lparr>grade_id := gid\<rparr>)]\<rparr>"

section \<open>Rounding\<close>

lemma bit_length_bounds:
  "0 < n \<Longrightarrow> 0 < bit_length n \<and> 2 ^ (bit_length n - 1) \<le> n \<and> n < 2 ^ bit_length n"
proof (induction n rule: bit_length.induct)
  case (1 n)
  show ?case
  proof (cases "n div 2 = 0")
    case True
    with 1(2) have "n = 1" by (simp add: div_eq_0_iff)
    then show ?thesis by (simp add: bit_length.simps)
  next
    case False
    then have pos: "0 < n div 2" by simp
    from 1(1)[OF _ pos] 1(2)
    have ih: "0 < bit_length (n div 2)" "2 ^ (bit_length (n div 2) - 1) \<le> n div 2"
      "n div 2 < 2 ^ bit_length (n div 2)"
      by simp_all
    have bl: "bit_length n = Suc (bit_length (n div 2))"
      using 1(2) by (subst bit_length.simps) simp
    obtain k where k: "bit_length (n div 2) = Suc k" using ih(1) by (cases "bit_length (n div 2)") auto
    have lo: "2 * 2 ^ k \<le> n" using ih(2) k by simp
    have hi: "n < 2 * 2 ^ Suc k" using ih(3) k by simp
    show ?thesis using lo hi by (simp add: bl k)
  qed
qed

lemma pow2_pos: "0 < pow2 e"
  by (simp add: pow2_def)

lemma pow2_int: "pow2 (int n) = 2 ^ n"
  by (simp add: pow2_def)

lemma pow2_neg: "pow2 (- int n) = 1 / 2 ^ n"
  by (auto simp: pow2_def)

lemma pow2_Suc: "pow2 (e + 1) = 2 * pow2 e"
proof (cases "0 \<le> e")
  case True
  then have "nat (e + 1) = Suc (nat e)" by simp
  with True show ?thesis by (simp add: pow2_def)
next
  case False
  then obtain n where e: "e = - int (Suc n)" by (metis add_0 int_cases neg_0_le_iff_le of_nat_0_le_iff of_nat_Suc old.nat.exhaust)
  then have "e + 1 = - int n" by simp
  then have "pow2 (e + 1) = 1 / 2 ^ n" by (simp only: pow2_neg)
  moreover have "pow2 e = 1 / 2 ^ Suc n" by (simp only: e pow2_neg)
  ultimately show ?thesis by simp
qed

lemma pow2_mono_step: "pow2 e < pow2 (e + 1)"
  using pow2_pos[of e] by (simp add: pow2_Suc)

lemma pow2_add_nat: "pow2 (e + int n) = 2 ^ n * pow2 e"
proof (induction n)
  case 0
  then show ?case by simp
next
  case (Suc n)
  have "e + int (Suc n) = (e + int n) + 1" by simp
  then have "pow2 (e + int (Suc n)) = pow2 ((e + int n) + 1)" by (simp only:)
  also have "\<dots> = 2 * pow2 (e + int n)" by (rule pow2_Suc)
  finally show ?case using Suc by simp
qed

lemma pow2_mono: "a \<le> b \<Longrightarrow> pow2 a \<le> pow2 b"
proof -
  assume "a \<le> b"
  then obtain n where "b = a + int n" by (metis zle_iff_zadd)
  then show ?thesis using pow2_pos[of a] by (simp add: pow2_add_nat)
qed

lemma pow2_less_imp: "pow2 a < pow2 b \<Longrightarrow> a < b"
  using pow2_mono[of b a] by (cases "a < b") auto

lemma binade_bounds:
  assumes "x \<noteq> 0"
  shows "pow2 (binade x) \<le> \<bar>x\<bar> \<and> \<bar>x\<bar> < pow2 (binade x + 1)"
proof (cases "1 \<le> \<bar>x\<bar>")
  case True
  define n where "n = nat \<lfloor>\<bar>x\<bar>\<rfloor>"
  have npos: "0 < n" using True by (simp add: n_def)
  have nle: "real n \<le> \<bar>x\<bar>" "\<bar>x\<bar> < real n + 1"
    using True by (simp_all add: n_def)
  from bit_length_bounds[OF npos] obtain k where k: "bit_length n = Suc k"
    "2 ^ k \<le> n" "n < 2 ^ Suc k"
    by (cases "bit_length n") auto
  have b: "binade x = int k" using True by (simp add: binade_def n_def[symmetric] k)
  have "(2::real) ^ k \<le> real n" using k(2) by (metis of_nat_le_iff of_nat_numeral of_nat_power)
  then have lo: "pow2 (int k) \<le> \<bar>x\<bar>" unfolding pow2_int using nle(1) by linarith
  have "n + 1 \<le> 2 ^ Suc k" using k(3) by simp
  then have "real (n + 1) \<le> 2 ^ Suc k" by (metis of_nat_le_iff of_nat_numeral of_nat_power)
  then have "\<bar>x\<bar> < 2 ^ Suc k" using nle(2) by linarith
  then have hi: "\<bar>x\<bar> < pow2 (int k + 1)" by (simp add: pow2_Suc pow2_int)
  show ?thesis using lo hi by (simp add: b)
next
  case False
  define a where "a = \<bar>x\<bar>"
  have a: "0 < a" "a < 1" using False assms by (simp_all add: a_def)
  define c where "c = \<lceil>1 / a\<rceil>"
  have y: "1 < 1 / a" using a by simp
  then have c2: "2 \<le> c" unfolding c_def by linarith
  define m where "m = nat (c - 1)"
  have mpos: "0 < m" using c2 by (simp add: m_def)
  have mc: "real m = real_of_int c - 1" using c2 by (simp add: m_def)
  have yb: "real m < 1 / a" "1 / a \<le> real m + 1"
    unfolding mc c_def by linarith+
  from bit_length_bounds[OF mpos] obtain k where k: "bit_length m = Suc k"
    "2 ^ k \<le> m" "m < 2 ^ Suc k"
    by (cases "bit_length m") auto
  have b: "binade x = - int (Suc k)"
    using False by (simp add: binade_def a_def[symmetric] c_def[symmetric] m_def[symmetric] k Let_def)
  have "m + 1 \<le> 2 ^ Suc k" using k(3) by simp
  then have "real (m + 1) \<le> 2 ^ Suc k" by (metis of_nat_le_iff of_nat_numeral of_nat_power)
  then have "1 / a \<le> 2 ^ Suc k" using yb(2) by linarith
  then have "1 \<le> 2 ^ Suc k * a" using a(1) by (simp add: pos_divide_le_eq)
  then have lo: "1 / 2 ^ Suc k \<le> a" by (simp add: pos_divide_le_eq mult.commute)
  have "(2::real) ^ k \<le> real m" using k(2) by (metis of_nat_le_iff of_nat_numeral of_nat_power)
  then have "2 ^ k < 1 / a" using yb(1) by linarith
  then have "2 ^ k * a < 1" using a(1) by (simp add: pos_less_divide_eq)
  then have hi: "a < 1 / 2 ^ k" by (simp add: pos_less_divide_eq mult.commute)
  have e1: "- int (Suc k) + 1 = - int k" by simp
  show ?thesis unfolding b e1 using lo hi by (simp only: pow2_neg a_def)
qed

lemma binade_le:
  assumes "x \<noteq> 0" "\<bar>x\<bar> < pow2 (k + 1)"
  shows "binade x \<le> k"
proof -
  from binade_bounds[OF assms(1)] assms(2) have "pow2 (binade x) < pow2 (k + 1)" by simp
  from pow2_less_imp[OF this] show ?thesis by simp
qed

lemma binade_ge:
  assumes "pow2 k \<le> \<bar>x\<bar>"
  shows "k \<le> binade x"
proof -
  have "x \<noteq> 0" using assms pow2_pos[of k] by auto
  from binade_bounds[OF this] assms have "pow2 k < pow2 (binade x + 1)" by simp
  from pow2_less_imp[OF this] show ?thesis by simp
qed


lemma round_half_even_bounds:
  assumes "real_of_int lo \<le> x" "x \<le> real_of_int hi"
  shows "lo \<le> round_half_even x \<and> round_half_even x \<le> hi"
proof -
  have f1: "lo \<le> \<lfloor>x\<rfloor>" using assms(1) by (simp add: le_floor_iff)
  have f2: "\<lfloor>x\<rfloor> \<le> hi" using assms(2) by (simp add: floor_le_iff)
  show ?thesis
  proof (cases "\<lfloor>x\<rfloor> = hi")
    case True
    then have "x - of_int \<lfloor>x\<rfloor> \<le> 0" using assms(2) by simp
    then have "x - of_int \<lfloor>x\<rfloor> < 1/2" by linarith
    with True f1 show ?thesis by (simp add: round_half_even_def Let_def)
  next
    case False
    with f2 have "\<lfloor>x\<rfloor> + 1 \<le> hi" by simp
    with f1 show ?thesis by (auto simp: round_half_even_def Let_def)
  qed
qed

lemma round_half_even_error: "\<bar>real_of_int (round_half_even x) - x\<bar> \<le> 1/2"
proof -
  define f where "f = \<lfloor>x\<rfloor>"
  define d where "d = x - of_int f"
  have d: "0 \<le> d" "d < 1" unfolding d_def f_def by linarith+
  have x: "x = of_int f + d" by (simp add: d_def)
  have r: "round_half_even x
      = (if d < 1/2 then f else if 1/2 < d then f + 1 else if even f then f else f + 1)"
    by (simp add: round_half_even_def Let_def f_def d_def)
  show ?thesis unfolding r using d by (auto simp: x abs_if)
qed

lemma ulp_pos: "0 < ulp x"
  by (simp add: ulp_def pow2_pos)

lemma fl_grid:
  assumes "b = real_of_int m * ulp x"
  shows "(b \<le> x \<longrightarrow> b \<le> fl x) \<and> (x \<le> b \<longrightarrow> fl x \<le> b)"
proof -
  have u: "0 < ulp x" by (rule ulp_pos)
  have lo: "b \<le> fl x" if "b \<le> x"
  proof -
    from that have "real_of_int m \<le> x / ulp x" using u by (simp add: assms pos_le_divide_eq)
    from round_half_even_bounds[OF this order_refl[THEN order_trans, of "x / ulp x" "real_of_int \<lceil>x / ulp x\<rceil>"]]
    have "m \<le> round_half_even (x / ulp x)" by simp
    then have "real_of_int m \<le> real_of_int (round_half_even (x / ulp x))" by simp
    then show ?thesis using u by (simp add: assms fl_def)
  qed
  have hi: "fl x \<le> b" if "x \<le> b"
  proof -
    from that have "x / ulp x \<le> real_of_int m" using u by (simp add: assms pos_divide_le_eq)
    from round_half_even_bounds[OF order_trans[OF _ order_refl, of "real_of_int \<lfloor>x / ulp x\<rfloor>" "x / ulp x"] this]
    have "round_half_even (x / ulp x) \<le> m" by simp
    then have "real_of_int (round_half_even (x / ulp x)) \<le> real_of_int m" by simp
    then show ?thesis using u by (simp add: assms fl_def)
  qed
  from lo hi show ?thesis by blast
qed

lemma fl_zero: "fl 0 = 0"
  using fl_grid[of 0 0 0] by simp


lemma fl_nonpos: "x \<le> 0 \<Longrightarrow> fl x \<le> 0"
  using fl_grid[of 0 0 x] by simp

lemma fl_error: "\<bar>fl x - x\<bar> \<le> ulp x / 2"
proof -
  have u: "0 < ulp x" by (rule ulp_pos)
  have "fl x - x = (real_of_int (round_half_even (x / ulp x)) - x / ulp x) * ulp x"
    using u by (simp add: fl_def algebra_simps)
  then have "\<bar>fl x - x\<bar> = \<bar>real_of_int (round_half_even (x / ulp x)) - x / ulp x\<bar> * ulp x"
    using u by (simp add: abs_mult)
  also have "\<dots> \<le> 1/2 * ulp x"
    using round_half_even_error[of "x / ulp x"] u by (intro mult_right_mono) simp_all
  finally show ?thesis by simp
qed

lemma binade_zero: "binade 0 = 0"
  by (simp add: binade_def bit_length.simps)

lemma ulp_divides_pow2:
  assumes "x \<noteq> 0" "\<bar>x\<bar> \<le> pow2 k" "- 1022 \<le> k"
  shows "\<exists>j. pow2 k = 2 ^ j * ulp x"
proof -
  have "\<bar>x\<bar> < pow2 (k + 1)" using assms(2) pow2_mono_step[of k] by simp
  from binade_le[OF assms(1) this] have b: "binade x \<le> k" .
  define e where "e = max (binade x) (- 1022)"
  have "e \<le> k" using b assms(3) by (simp add: e_def)
  then have "k = (e - 52) + int (nat (k - e + 52))" by simp
  then have "pow2 k = 2 ^ nat (k - e + 52) * pow2 (e - 52)"
    using pow2_add_nat[of "e - 52" "nat (k - e + 52)"] by simp
  then show ?thesis unfolding ulp_def e_def[symmetric] by blast
qed

lemma fl_abs_le_pow2:
  assumes "\<bar>x\<bar> \<le> pow2 k" "- 1022 \<le> k"
  shows "\<bar>fl x\<bar> \<le> pow2 k"
proof (cases "x = 0")
  case True
  then show ?thesis using pow2_pos[of k] by (simp add: fl_zero)
next
  case False
  from ulp_divides_pow2[OF False assms] obtain j where j: "pow2 k = 2 ^ j * ulp x" by blast
  have p: "pow2 k = real_of_int (2 ^ j) * ulp x" using j by simp
  have n: "- pow2 k = real_of_int (- (2 ^ j)) * ulp x" using j by simp
  from fl_grid[OF p] fl_grid[OF n] assms(1) show ?thesis by (simp add: abs_le_iff)
qed

lemma fl_int_bounds:
  assumes "\<bar>x\<bar> < 2 ^ 53"
  shows "(real_of_int n \<le> x \<longrightarrow> real_of_int n \<le> fl x) \<and> (x \<le> real_of_int n \<longrightarrow> fl x \<le> real_of_int n)"
proof (cases "x = 0")
  case True
  then show ?thesis by (simp add: fl_zero)
next
  case False
  have "\<bar>x\<bar> \<le> pow2 53" using assms by (simp add: pow2_def)
  from ulp_divides_pow2[OF False this] obtain j where j: "pow2 53 = 2 ^ j * ulp x" by auto
  have "\<bar>x\<bar> < pow2 (52 + 1)" using assms by (simp add: pow2_def)
  from binade_le[OF False this] have "binade x \<le> 52" .
  then have "max (binade x) (- 1022) - 52 \<le> 0" by simp
  then obtain i where i: "max (binade x) (- 1022) - 52 = - int i"
    by (metis add.inverse_inverse neg_0_le_iff_le nonneg_int_cases)
  have u: "ulp x = 1 / 2 ^ i" by (simp add: ulp_def i pow2_neg)
  have "real_of_int n = real_of_int (n * 2 ^ i) * ulp x" by (simp add: u)
  from fl_grid[OF this] show ?thesis .
qed

lemma bit_length_zero: "bit_length 0 = 0"
  by (simp add: bit_length.simps)

lemma bit_length_one: "bit_length (Suc 0) = 1"
  by (simp add: bit_length.simps)

lemma bit_length_numeral: "bit_length (numeral k) = Suc (bit_length (numeral k div 2))"
  by (subst bit_length.simps) simp

lemma bind_weak_cong: "x = y \<Longrightarrow> Option.bind x f = Option.bind y f"
  by simp

lemma let_eval_cong: "s = t \<Longrightarrow> Let s f = Let t f"
  by simp

lemma case_prod_weak_cong: "p = q \<Longrightarrow> case_prod f p = case_prod f q"
  by simp

lemma map_option_weak_cong: "x = y \<Longrightarrow> map_option f x = map_option f y"
  by simp

lemmas float_eval =
  fl_def ulp_def binade_def pow2_def round_half_even_def bit_length_zero bit_length_one
  bit_length_numeral fadd_def fsub_def fmul_def fdiv_def float_of_int_def int_truediv_def
  py_int_def py_round2_def Let_def

section \<open>Calendar facts\<close>

lemma div_pred_step:
  fixes y n :: int
  assumes "0 < n"
  shows "y div n = (y - 1) div n + (if y mod n = 0 then 1 else 0)"
proof (cases "y mod n = 0")
  case True
  have "y = n * (y div n)" using True by (metis add.right_neutral mult_div_mod_eq)
  then have "y - 1 = n * (y div n - 1) + (n - 1)"
    by (simp add: algebra_simps)
  then have "(y - 1) div n = y div n - 1"
    using assms by (intro int_div_pos_eq[where r = "n - 1"]) auto
  with True show ?thesis by simp
next
  case False
  have "0 \<le> y mod n" "y mod n < n" using assms by simp_all
  with False have r: "0 \<le> y mod n - 1" "y mod n - 1 < n" by linarith+
  have "y - 1 = n * (y div n) + (y mod n - 1)" by simp
  then have "(y - 1) div n = y div n"
    using r by (rule int_div_pos_eq)
  with False show ?thesis by simp
qed

lemma mod_dvd_trans: "(k::int) dvd n \<Longrightarrow> y mod n = 0 \<Longrightarrow> y mod k = 0"
  by (meson dvd_trans mod_0_imp_dvd dvd_imp_mod_0)

lemma dby_step:
  "days_before_year (y + 1) = days_before_year y + 365 + (if is_leap y then 1 else 0)"
proof -
  define q4 where "q4 = (y - 1) div 4"
  define q100 where "q100 = (y - 1) div 100"
  define q400 where "q400 = (y - 1) div 400"
  define b4 where "b4 = (y mod 4 = 0)"
  define b100 where "b100 = (y mod 100 = 0)"
  define b400 where "b400 = (y mod 400 = 0)"
  have a: "y div 4 = q4 + (if b4 then 1 else 0)"
    unfolding q4_def b4_def by (rule div_pred_step) simp
  have b: "y div 100 = q100 + (if b100 then 1 else 0)"
    unfolding q100_def b100_def by (rule div_pred_step) simp
  have c: "y div 400 = q400 + (if b400 then 1 else 0)"
    unfolding q400_def b400_def by (rule div_pred_step) simp
  have d: "b400 \<Longrightarrow> b100" "b100 \<Longrightarrow> b4"
    unfolding b4_def b100_def b400_def
    by (rule mod_dvd_trans[of 100 400], simp, assumption)
       (rule mod_dvd_trans[of 4 100], simp, assumption)
  have l: "is_leap y = (b4 \<and> (\<not> b100 \<or> b400))"
    by (simp add: is_leap_def b4_def b100_def b400_def)
  have e: "days_before_year (y + 1) = y * 365 + y div 4 - y div 100 + y div 400"
    by (simp add: days_before_year_def)
  have f: "days_before_year y = (y - 1) * 365 + q4 - q100 + q400"
    by (simp add: days_before_year_def q4_def q100_def q400_def)
  show ?thesis
    unfolding e f a b c l using d
    by (cases b4; cases b100; cases b400) (simp_all add: algebra_simps)
qed

lemma dby_mono: "0 \<le> k \<Longrightarrow> days_before_year y \<le> days_before_year (y + k)"
proof (induction k rule: int_ge_induct)
  case base
  then show ?case by simp
next
  case (step i)
  have "days_before_year (y + i) \<le> days_before_year (y + i + 1)" by (simp add: dby_step)
  with step show ?case by (simp add: add.assoc)
qed

lemma dby_mono_step: "y < y' \<Longrightarrow> days_before_year (y + 1) \<le> days_before_year y'"
  using dby_mono[of "y' - (y + 1)" "y + 1"] by simp

lemma month_cases:
  "1 \<le> m \<Longrightarrow> m \<le> (12::int) \<Longrightarrow>
   m = 1 \<or> m = 2 \<or> m = 3 \<or> m = 4 \<or> m = 5 \<or> m = 6 \<or> m = 7 \<or> m = 8 \<or> m = 9 \<or> m = 10
     \<or> m = 11 \<or> m = 12"
  by arith

lemma dbm_bounds:
  "1 \<le> m \<Longrightarrow> m \<le> 12 \<Longrightarrow>
   0 \<le> days_before_month y m \<and>
   days_before_month y m + days_in_month y m \<le> 365 + (if is_leap y then 1 else 0)"
  by (drule (1) month_cases) (elim disjE; simp add: days_before_month_def days_in_month_def)

lemma dim_pos: "0 < days_in_month y m"
  by (simp add: days_in_month_def)

lemma dbm_step:
  assumes "1 \<le> m" "m \<le> 11"
  shows "days_before_month y (m + 1) = days_before_month y m + days_in_month y m"
proof -
  from assms have "m = 1 \<or> m = 2 \<or> m = 3 \<or> m = 4 \<or> m = 5 \<or> m = 6 \<or> m = 7 \<or> m = 8
      \<or> m = 9 \<or> m = 10 \<or> m = 11" by arith
  then show ?thesis
    by (elim disjE; simp add: days_before_month_def days_in_month_def)
qed

lemma dbm_mono_le:
  "m \<le> m' \<Longrightarrow> 1 \<le> m \<Longrightarrow> m' \<le> 12 \<Longrightarrow> days_before_month y m \<le> days_before_month y m'"
proof (induction m' rule: int_ge_induct)
  case base
  then show ?case by simp
next
  case (step i)
  then have "days_before_month y (i + 1) = days_before_month y i + days_in_month y i"
    by (intro dbm_step) auto
  with step dim_pos[of y i] show ?case by simp
qed

lemma dbm_mono:
  "1 \<le> m \<Longrightarrow> m < m' \<Longrightarrow> m' \<le> 12 \<Longrightarrow>
   days_before_month y m + days_in_month y m \<le> days_before_month y m'"
  using dbm_step[of m y] dbm_mono_le[of "m + 1" m' y] by simp

lemma toordinal_mono:
  assumes "valid_date a" "valid_date b" "date_lt a b"
  shows "toordinal a < toordinal b"
proof (cases a, cases b)
  fix y m d y' m' d' assume ab: "a = Date y m d" "b = Date y' m' d'"
  from assms ab have v: "1 \<le> m" "m \<le> 12" "1 \<le> d" "d \<le> days_in_month y m"
    "1 \<le> m'" "m' \<le> 12" "1 \<le> d'" "d' \<le> days_in_month y' m'"
    by (auto simp: valid_date_def)
  from assms(3) ab consider "y < y'" | "y = y'" "m < m'" | "y = y'" "m = m'" "d < d'"
    by (auto simp: date_lt_def)
  then show ?thesis
  proof cases
    case 1
    have "toordinal a \<le> days_before_year y + 365 + (if is_leap y then 1 else 0)"
      using dbm_bounds[OF v(1,2), of y] v(4) by (simp add: toordinal_def ab)
    also have "\<dots> = days_before_year (y + 1)" by (simp add: dby_step)
    also have "\<dots> \<le> days_before_year y'" using 1 by (rule dby_mono_step)
    also have "\<dots> < toordinal b"
      using dbm_bounds[OF v(5,6), of y'] v(7) by (simp add: toordinal_def ab)
    finally show ?thesis .
  next
    case 2
    then show ?thesis using dbm_mono[OF v(1) 2(2) v(6), of y] v
      by (simp add: toordinal_def ab)
  next
    case 3
    then show ?thesis by (simp add: toordinal_def ab)
  qed
qed

lemma date_le_total: "\<not> date_le a b \<Longrightarrow> date_le b a"
  by (cases a; cases b) (auto simp: date_le_def date_lt_def)

section \<open>Headcount interpolation\<close>

lemma anchors_ordered_tail: "anchors_ordered (a # rest) \<Longrightarrow> anchors_ordered rest"
  by (cases rest) auto

lemma anchors_ordered_valid: "anchors_ordered anchors \<Longrightarrow> a \<in> set anchors \<Longrightarrow> valid_date (fst a)"
  by (induction anchors rule: anchors_ordered.induct) auto

lemma interp_loop_bracket:
  assumes "anchors \<noteq> []"
    and "\<not> date_le target_date (fst (hd anchors))"
    and "\<not> date_le (fst (last anchors)) target_date"
  shows "\<exists>i. Suc i < length anchors
           \<and> date_le (fst (anchors ! i)) target_date
           \<and> date_le target_date (fst (anchors ! Suc i))
           \<and> interp_loop anchors target_date dflt
               = interp_value (anchors ! i) (anchors ! Suc i) target_date"
  using assms
proof (induction anchors target_date dflt rule: interp_loop.induct)
  case (1 a1 a2 rest target_date dflt)
  show ?case
  proof (cases "date_le (fst a1) target_date \<and> date_le target_date (fst a2)")
    case True
    then show ?thesis by (intro exI[of _ 0]) simp
  next
    case False
    from "1.prems"(2) have le1: "date_le (fst a1) target_date"
      using date_le_total by fastforce
    with False have n2: "\<not> date_le target_date (fst a2)" by simp
    from "1.prems"(3) have "\<not> date_le (fst (last (a2 # rest))) target_date" by simp
    with "1.IH"[OF False] n2
    obtain i where i: "Suc i < length (a2 # rest)"
      "date_le (fst ((a2 # rest) ! i)) target_date"
      "date_le target_date (fst ((a2 # rest) ! Suc i))"
      "interp_loop (a2 # rest) target_date dflt
         = interp_value ((a2 # rest) ! i) ((a2 # rest) ! Suc i) target_date"
      by auto
    with n2 show ?thesis by (intro exI[of _ "Suc i"]) simp
  qed
next
  case (2 a1 target_date dflt)
  then show ?case using date_le_total by fastforce
next
  case (3 target_date dflt)
  then show ?case by simp
qed

lemma anchors_ordered_step:
  "anchors_ordered anchors \<Longrightarrow> Suc i < length anchors \<Longrightarrow>
   0 < date_diff_days (fst (anchors ! Suc i)) (fst (anchors ! i))"
proof (induction anchors arbitrary: i rule: anchors_ordered.induct)
  case (1 a1 a2 rest)
  show ?case
  proof (cases i)
    case 0
    have "valid_date (fst a2)" using "1.prems"(1) by (cases rest) auto
    with "1.prems"(1) have "toordinal (fst a1) < toordinal (fst a2)"
      by (intro toordinal_mono) auto
    with 0 show ?thesis by (simp add: date_diff_days_def)
  next
    case (Suc j)
    with "1.prems" "1.IH"[of j] show ?thesis by simp
  qed
qed auto

lemma toordinal_mono_le:
  assumes "valid_date a" "valid_date b" "date_le a b"
  shows "toordinal a \<le> toordinal b"
  using assms toordinal_mono[of a b] by (auto simp: date_le_def)

lemma fl_of_int_exact:
  assumes "\<bar>n\<bar> < 2 ^ 53"
  shows "fl (real_of_int n) = real_of_int n"
proof -
  have "\<bar>real_of_int n\<bar> < 2 ^ 53" using assms by (metis of_int_abs of_int_less_iff of_int_numeral of_int_power)
  from fl_int_bounds[OF this, of n] show ?thesis by simp
qed

lemma interp_float_defined:
  assumes "0 \<le> e" "e \<le> t" "0 < t" "\<bar>h1\<bar> < 2 ^ 52" "\<bar>h2\<bar> < 2 ^ 52"
  shows "\<exists>r. do { ratio \<leftarrow> int_truediv e t;
                  dh \<leftarrow> float_of_int (h2 - h1);
                  h \<leftarrow> float_of_int h1;
                  py_int (fadd h (fmul dh ratio)) } = Some r
             \<and> min h1 h2 \<le> r \<and> r \<le> max h1 h2"
proof -
  define q where "q = real_of_int e / real_of_int t"
  have q: "0 \<le> q" "q \<le> 1" using assms(1,2,3) by (simp_all add: q_def)
  then have "\<bar>q\<bar> < 2 ^ 53" by simp
  from fl_int_bounds[OF this, of 0] fl_int_bounds[OF this, of 1] q
  have x: "0 \<le> fl q" "fl q \<le> 1" by simp_all
  define x where "x = fl q"
  have x01: "0 \<le> x" "x \<le> 1" using x by (simp_all add: x_def)
  have r1: "int_truediv e t = Some x"
    using assms(3) x01 by (simp add: int_truediv_def q_def x_def Let_def)
  have "\<bar>h2 - h1\<bar> < 2 ^ 53" using assms(4,5) by simp
  then have dh: "fl (real_of_int (h2 - h1)) = real_of_int (h2 - h1)" by (rule fl_of_int_exact)
  have big: "(2::real) ^ 53 < 2 ^ 1024" by simp
  have "\<bar>real_of_int (h2 - h1)\<bar> < 2 ^ 53"
    using \<open>\<bar>h2 - h1\<bar> < 2 ^ 53\<close> by (metis of_int_abs of_int_less_iff of_int_numeral of_int_power)
  then have r2: "float_of_int (h2 - h1) = Some (real_of_int (h2 - h1))"
    using big by (simp only: float_of_int_def dh Let_def) simp
  have "\<bar>h1\<bar> < 2 ^ 53" using assms(4) by simp
  then have h: "fl (real_of_int h1) = real_of_int h1" by (rule fl_of_int_exact)
  have h1r: "\<bar>real_of_int h1\<bar> < 2 ^ 52" "\<bar>real_of_int h2\<bar> < 2 ^ 52"
    using assms(4,5) by (metis of_int_abs of_int_less_iff of_int_numeral of_int_power)+
  then have r3: "float_of_int h1 = Some (real_of_int h1)"
    by (simp only: float_of_int_def h Let_def) simp
  define d where "d = real_of_int (h2 - h1)"
  define p where "p = fl (d * x)"
  have dx: "\<bar>d * x\<bar> < 2 ^ 53"
  proof -
    have "\<bar>d * x\<bar> = \<bar>d\<bar> * x" using x01 by (simp add: abs_mult)
    also have "\<dots> \<le> \<bar>d\<bar> * 1" using x01 by (intro mult_left_mono) simp_all
    finally show ?thesis using \<open>\<bar>real_of_int (h2 - h1)\<bar> < 2 ^ 53\<close> by (simp add: d_def)
  qed
  from fl_int_bounds[OF dx, of "h2 - h1"]
  have b2: "(d \<le> d * x \<longrightarrow> d \<le> p) \<and> (d * x \<le> d \<longrightarrow> p \<le> d)"
    unfolding d_def p_def .
  from fl_int_bounds[OF dx, of 0]
  have b0: "(0 \<le> d * x \<longrightarrow> 0 \<le> p) \<and> (d * x \<le> 0 \<longrightarrow> p \<le> 0)"
    unfolding p_def by simp
  have pb: "min 0 d \<le> p \<and> p \<le> max 0 d"
  proof (cases "0 \<le> d")
    case True
    then have "0 \<le> d * x" "d * x \<le> d" using x01 by (simp_all add: mult_left_le)
    with b0 b2 True show ?thesis by simp
  next
    case False
    then have d: "d \<le> 0" by simp
    have "d * x \<le> 0" using d x01 by (simp add: mult_nonpos_nonneg)
    moreover have "d * 1 \<le> d * x" using d x01 by (intro mult_left_mono_neg) simp_all
    ultimately show ?thesis using b0 b2 d by simp
  qed
  define lo where "lo = min h1 h2"
  define hi where "hi = max h1 h2"
  have sum: "real_of_int lo \<le> real_of_int h1 + p" "real_of_int h1 + p \<le> real_of_int hi"
    using pb by (auto simp: lo_def hi_def d_def min_def max_def split: if_splits)
  have lohi: "\<bar>real_of_int lo\<bar> < 2 ^ 52" "\<bar>real_of_int hi\<bar> < 2 ^ 52"
    using h1r by (auto simp: lo_def hi_def min_def max_def)
  have sb: "\<bar>real_of_int h1 + p\<bar> < 2 ^ 53" using sum lohi by (simp add: abs_less_iff)
  define s where "s = fl (real_of_int h1 + p)"
  from fl_int_bounds[OF sb, of lo] fl_int_bounds[OF sb, of hi] sum
  have s: "real_of_int lo \<le> s" "s \<le> real_of_int hi" by (simp_all add: s_def)
  then have sfin: "\<bar>s\<bar> < 2 ^ 1024" using lohi by (simp add: abs_less_iff)
  define r where "r = (if 0 \<le> s then \<lfloor>s\<rfloor> else \<lceil>s\<rceil>)"
  have r4: "py_int s = Some r" using sfin by (simp add: py_int_def r_def)
  have rb: "lo \<le> r" "r \<le> hi"
    using s by (auto simp: r_def le_floor_iff floor_le_iff le_ceiling_iff ceiling_le_iff)
       (linarith+)?
  have "do { ratio \<leftarrow> int_truediv e t;
             dh \<leftarrow> float_of_int (h2 - h1);
             h \<leftarrow> float_of_int h1;
             py_int (fadd h (fmul dh ratio)) } = Some r"
    using r4 by (simp add: r1 r2 r3 fadd_def fmul_def s_def p_def d_def)
  with rb show ?thesis unfolding lo_def hi_def by blast
qed

text \<open>
  C7. For a non-empty anchor list of calendar dates strictly ordered by date, and every query
  date: a date on or before the first anchor yields the first headcount; otherwise a date on or
  after the last anchor yields the last headcount; otherwise a consecutive anchor pair
  \<open>(d1, h1)\<close>, \<open>(d2, h2)\<close> with \<open>d1 \<le> date \<le> d2\<close> and \<open>d1 < d2\<close> exists and the result is
  \<open>h1 + (h2 - h1) * ratio\<close> truncated to an integer, for \<open>ratio\<close> the days since \<open>d1\<close> divided
  by the days from \<open>d1\<close> to \<open>d2\<close>, each operation rounded as Python floats are. For a calendar
  date and headcounts below \<open>2 ^ 52\<close> in absolute value that result exists and lies between
  \<open>h1\<close> and \<open>h2\<close>.
\<close>

theorem interpolate_headcount_cases:
  assumes "anchors \<noteq> []" and "anchors_ordered anchors"
  shows "(date_le target_date (fst (hd anchors)) \<longrightarrow>
            interpolate_headcount anchors target_date = Some (snd (hd anchors)))
       \<and> (\<not> date_le target_date (fst (hd anchors)) \<and> date_le (fst (last anchors)) target_date \<longrightarrow>
            interpolate_headcount anchors target_date = Some (snd (last anchors)))
       \<and> (\<not> date_le target_date (fst (hd anchors)) \<and> \<not> date_le (fst (last anchors)) target_date \<longrightarrow>
            (\<exists>i d1 h1 d2 h2.
                Suc i < length anchors \<and> anchors ! i = (d1, h1) \<and> anchors ! Suc i = (d2, h2)
              \<and> date_le d1 target_date \<and> date_le target_date d2
              \<and> 0 < date_diff_days d2 d1
              \<and> interpolate_headcount anchors target_date
                  = do { ratio \<leftarrow> int_truediv (date_diff_days target_date d1)
                                                  (date_diff_days d2 d1);
                         dh \<leftarrow> float_of_int (h2 - h1);
                         h \<leftarrow> float_of_int h1;
                         py_int (fadd h (fmul dh ratio)) }
              \<and> (valid_date target_date \<and> \<bar>h1\<bar> < 2 ^ 52 \<and> \<bar>h2\<bar> < 2 ^ 52 \<longrightarrow>
                   (\<exists>r. interpolate_headcount anchors target_date = Some r
                       \<and> min h1 h2 \<le> r \<and> r \<le> max h1 h2))))"
proof (intro conjI impI)
  assume "date_le target_date (fst (hd anchors))"
  with assms(1) show "interpolate_headcount anchors target_date = Some (snd (hd anchors))"
    by (cases anchors) (simp_all add: interpolate_headcount_def)
next
  assume "\<not> date_le target_date (fst (hd anchors)) \<and> date_le (fst (last anchors)) target_date"
  with assms(1) show "interpolate_headcount anchors target_date = Some (snd (last anchors))"
    by (cases anchors) (simp_all add: interpolate_headcount_def)
next
  assume mid: "\<not> date_le target_date (fst (hd anchors)) \<and> \<not> date_le (fst (last anchors)) target_date"
  with interp_loop_bracket[OF assms(1), of target_date "snd (last anchors)"]
  obtain i where i: "Suc i < length anchors"
    "date_le (fst (anchors ! i)) target_date"
    "date_le target_date (fst (anchors ! Suc i))"
    "interp_loop anchors target_date (snd (last anchors))
       = interp_value (anchors ! i) (anchors ! Suc i) target_date"
    by blast
  define d1 where "d1 = fst (anchors ! i)"
  define h1 where "h1 = snd (anchors ! i)"
  define d2 where "d2 = fst (anchors ! Suc i)"
  define h2 where "h2 = snd (anchors ! Suc i)"
  have pos: "0 < date_diff_days d2 d1"
    using anchors_ordered_step[OF assms(2) i(1)] by (simp add: d1_def d2_def)
  have res: "interpolate_headcount anchors target_date
      = do { ratio \<leftarrow> int_truediv (date_diff_days target_date d1) (date_diff_days d2 d1);
             dh \<leftarrow> float_of_int (h2 - h1);
             h \<leftarrow> float_of_int h1;
             py_int (fadd h (fmul dh ratio)) }"
    using assms(1) mid i(4) pos
    by (cases anchors)
       (simp_all add: interpolate_headcount_def interp_value_def Let_def d1_def d2_def h1_def h2_def)
  have defd: "\<exists>r. interpolate_headcount anchors target_date = Some r
                 \<and> min h1 h2 \<le> r \<and> r \<le> max h1 h2"
    if small: "valid_date target_date \<and> \<bar>h1\<bar> < 2 ^ 52 \<and> \<bar>h2\<bar> < 2 ^ 52"
  proof -
    have v1: "valid_date d1" "valid_date d2"
      using anchors_ordered_valid[OF assms(2)] i(1) by (simp_all add: d1_def d2_def)
    have e0: "0 \<le> date_diff_days target_date d1"
      using toordinal_mono_le[OF v1(1) _ i(2)[folded d1_def]] small
      by (simp add: date_diff_days_def)
    have e1: "date_diff_days target_date d1 \<le> date_diff_days d2 d1"
      using toordinal_mono_le[OF _ v1(2) i(3)[folded d2_def]] small
      by (simp add: date_diff_days_def)
    from interp_float_defined[OF e0 e1 pos] small res show ?thesis by simp
  qed
  show "\<exists>i d1 h1 d2 h2.
          Suc i < length anchors \<and> anchors ! i = (d1, h1) \<and> anchors ! Suc i = (d2, h2)
        \<and> date_le d1 target_date \<and> date_le target_date d2
        \<and> 0 < date_diff_days d2 d1
        \<and> interpolate_headcount anchors target_date
            = do { ratio \<leftarrow> int_truediv (date_diff_days target_date d1)
                                            (date_diff_days d2 d1);
                   dh \<leftarrow> float_of_int (h2 - h1);
                   h \<leftarrow> float_of_int h1;
                   py_int (fadd h (fmul dh ratio)) }
        \<and> (valid_date target_date \<and> \<bar>h1\<bar> < 2 ^ 52 \<and> \<bar>h2\<bar> < 2 ^ 52 \<longrightarrow>
             (\<exists>r. interpolate_headcount anchors target_date = Some r
                 \<and> min h1 h2 \<le> r \<and> r \<le> max h1 h2))"
    apply (rule exI[of _ i])
    apply (rule exI[of _ d1])
    apply (rule exI[of _ h1])
    apply (rule exI[of _ d2])
    apply (rule exI[of _ h2])
    using i(1,2,3) pos res defd by (simp add: d1_def d2_def h1_def h2_def)
qed

lemma GROWTH_ANCHORS_default: "GROWTH_ANCHORS default_config = default_GROWTH_ANCHORS"
  by (simp add: default_config_def)

lemma GROWTH_ANCHORS_ordered: "anchors_ordered (GROWTH_ANCHORS default_config)"
  by (simp add: GROWTH_ANCHORS_default default_GROWTH_ANCHORS_def valid_date_def date_lt_def
      days_in_month_def is_leap_def)

lemmas calendar_eval =
  date_le_def date_lt_def date_diff_days_def toordinal_def days_before_year_def
  days_before_month_def is_leap_def valid_date_def days_in_month_def

theorem interpolate_headcount_cases_witness:
  "(GROWTH_ANCHORS default_config) \<noteq> [] \<and> anchors_ordered (GROWTH_ANCHORS default_config)
   \<and> date_le (Date 2016 2 1) (fst (hd (GROWTH_ANCHORS default_config)))
   \<and> interpolate_headcount (GROWTH_ANCHORS default_config) (Date 2016 2 1) = Some 150
   \<and> \<not> date_le (Date 2026 2 28) (fst (hd (GROWTH_ANCHORS default_config)))
   \<and> date_le (fst (last (GROWTH_ANCHORS default_config))) (Date 2026 2 28)
   \<and> interpolate_headcount (GROWTH_ANCHORS default_config) (Date 2026 2 28) = Some 10050
   \<and> \<not> date_le (Date 2016 3 31) (fst (hd (GROWTH_ANCHORS default_config)))
   \<and> \<not> date_le (fst (last (GROWTH_ANCHORS default_config))) (Date 2016 3 31)
   \<and> valid_date (Date 2016 3 31)
   \<and> GROWTH_ANCHORS default_config ! 0 = (Date 2016 2 28, 150)
   \<and> GROWTH_ANCHORS default_config ! 1 = (Date 2016 6 30, 600)
   \<and> interpolate_headcount (GROWTH_ANCHORS default_config) (Date 2016 3 31) = Some 267"
proof -
  have ne: "(GROWTH_ANCHORS default_config) \<noteq> []"
    by (simp add: GROWTH_ANCHORS_default default_GROWTH_ANCHORS_def)
  have a: "date_le (Date 2016 2 1) (fst (hd (GROWTH_ANCHORS default_config)))"
    by (simp add: GROWTH_ANCHORS_default default_GROWTH_ANCHORS_def date_le_def date_lt_def)
  have b: "\<not> date_le (Date 2026 2 28) (fst (hd (GROWTH_ANCHORS default_config)))
      \<and> date_le (fst (last (GROWTH_ANCHORS default_config))) (Date 2026 2 28)"
    by (simp add: GROWTH_ANCHORS_default default_GROWTH_ANCHORS_def date_le_def date_lt_def)
  have c: "\<not> date_le (Date 2016 3 31) (fst (hd (GROWTH_ANCHORS default_config)))
      \<and> \<not> date_le (fst (last (GROWTH_ANCHORS default_config))) (Date 2016 3 31)"
    by (simp add: GROWTH_ANCHORS_default default_GROWTH_ANCHORS_def date_le_def date_lt_def)
  have d: "valid_date (Date 2016 3 31)
      \<and> GROWTH_ANCHORS default_config ! 0 = (Date 2016 2 28, 150)
      \<and> GROWTH_ANCHORS default_config ! 1 = (Date 2016 6 30, 600)"
    by (simp add: GROWTH_ANCHORS_default default_GROWTH_ANCHORS_def calendar_eval)
  have v: "interpolate_headcount (GROWTH_ANCHORS default_config) (Date 2016 3 31) = Some 267"
    by (simp add: interpolate_headcount_def GROWTH_ANCHORS_default default_GROWTH_ANCHORS_def
        interp_value_def calendar_eval float_eval cong: bind_weak_cong let_eval_cong)
  from interpolate_headcount_cases[OF ne GROWTH_ANCHORS_ordered, of "Date 2016 2 1"] a
  have ra: "interpolate_headcount (GROWTH_ANCHORS default_config) (Date 2016 2 1) = Some 150"
    by (simp add: GROWTH_ANCHORS_default default_GROWTH_ANCHORS_def)
  from interpolate_headcount_cases[OF ne GROWTH_ANCHORS_ordered, of "Date 2026 2 28"] b
  have rb: "interpolate_headcount (GROWTH_ANCHORS default_config) (Date 2026 2 28) = Some 10050"
    by (simp add: GROWTH_ANCHORS_default default_GROWTH_ANCHORS_def)
  from ne GROWTH_ANCHORS_ordered a b c d v ra rb show ?thesis by blast
qed

text \<open>
  The rounding shows in the result: between the anchors (2020-01-01, 0) and (2020-01-12, 110)
  the date 2020-01-04 yields 29, as the Python function does, although \<open>110 * 3 / 11\<close> is 30:
  the quotient \<open>3 / 11\<close> is rounded down, and so is its product with 110.
\<close>

lemma interpolate_headcount_rounds:
  "interpolate_headcount [(Date 2020 1 1, 0), (Date 2020 1 12, 110)] (Date 2020 1 4) = Some 29"
  by (simp add: interpolate_headcount_def interp_value_def calendar_eval float_eval
      cong: bind_weak_cong let_eval_cong)

section \<open>Facts about the random generator\<close>

lemma nat_mod_lt: "0 < n \<Longrightarrow> nat (k mod int n) < n"
proof -
  assume "0 < n"
  then have "0 \<le> k mod int n" "k mod int n < int n" by simp_all
  then show ?thesis by (simp add: nat_less_iff)
qed

lemma rng_choice_in: "rng_choice g xs = Some (x, g') \<Longrightarrow> x \<in> set xs"
  by (auto simp: rng_choice_def Let_def nat_mod_lt split: if_splits prod.splits)

lemma rng_choice_Some: "xs \<noteq> [] \<Longrightarrow> \<exists>x g'. rng_choice g xs = Some (x, g')"
  by (auto simp: rng_choice_def Let_def split: prod.splits)

lemma rng_randint_bounds: "rng_randint g a b = Some (k, g') \<Longrightarrow> a \<le> k \<and> k \<le> b"
  by (auto simp: rng_randint_def Let_def split: if_splits prod.splits)
     (smt (verit) pos_mod_bound)

lemma bisect_right_le: "lo \<le> hi \<Longrightarrow> bisect_right a x lo hi \<le> hi"
proof (induction a x lo hi rule: bisect_right.induct)
  case (1 a x lo hi)
  show ?case
  proof (cases "lo < hi")
    case True
    then have m: "lo \<le> (lo + hi) div 2" "(lo + hi) div 2 + 1 \<le> hi" by auto
    show ?thesis
    proof (cases "x < a ! ((lo + hi) div 2)")
      case lt: True
      from "1.IH"(1)[OF True refl lt m(1)] True lt m
      show ?thesis by (subst bisect_right.simps) (simp add: Let_def)
    next
      case ge: False
      from "1.IH"(2)[OF True refl ge m(2)] True ge
      show ?thesis by (subst bisect_right.simps) (simp add: Let_def)
    qed
  next
    case False
    with "1.prems" show ?thesis by (subst bisect_right.simps) simp
  qed
qed

lemma rng_choices_in: "rng_choices g population weights = Some (x, g') \<Longrightarrow> x \<in> set population"
proof -
  assume a: "rng_choices g population weights = Some (x, g')"
  then have n: "population \<noteq> []"
    by (auto simp: rng_choices_def Let_def split: if_splits)
  have "bisect_right cw v 0 (length population - 1) < length population" for cw v
    using bisect_right_le[of 0 "length population - 1" cw v] n
    by (cases population) auto
  with a show ?thesis
    by (auto simp: rng_choices_def Let_def split: if_splits prod.splits)
qed

lemma shuffle_loop_mset: "i < length xs \<Longrightarrow> mset (fst (shuffle_loop i xs g)) = mset xs"
proof (induction i arbitrary: xs g)
  case 0
  then show ?case by simp
next
  case (Suc i)
  obtain x g' where n: "rng_next g = (x, g')" by (cases "rng_next g")
  define j where "j = nat (\<lfloor>x\<rfloor> mod int (Suc i + 1))"
  have "j < Suc i + 1" unfolding j_def by (rule nat_mod_lt) simp
  then have j: "j < length xs" using Suc.prems by simp
  have "mset (xs[Suc i := xs ! j, j := xs ! Suc i]) = mset xs"
    using mset_swap[OF j Suc.prems] by simp
  moreover have "i < length (xs[Suc i := xs ! j, j := xs ! Suc i])" using Suc.prems by simp
  ultimately show ?case using Suc.IH n by (simp add: j_def Let_def)
qed

lemma rng_shuffle_mset: "mset (fst (rng_shuffle g xs)) = mset xs"
  by (cases xs) (simp_all add: rng_shuffle_def shuffle_loop_mset)

lemma rng_shuffle_set: "set (fst (rng_shuffle g xs)) = set xs"
  using rng_shuffle_mset[of g xs] by (metis set_mset_mset)

lemma rng_shuffle_length: "length (fst (rng_shuffle g xs)) = length xs"
  using rng_shuffle_mset[of g xs] by (metis size_mset)

section \<open>Dates drawn within a month\<close>

lemma date_succ_iter:
  "d + int k \<le> days_in_month y m \<Longrightarrow> (date_succ ^^ k) (Date y m d) = Date y m (d + int k)"
proof (induction k)
  case 0
  then show ?case by simp
next
  case (Suc k)
  then have "(date_succ ^^ k) (Date y m d) = Date y m (d + int k)" by simp
  moreover have "d + int k < days_in_month y m" using Suc.prems by simp
  ultimately show ?case by (simp add: add.assoc)
qed

lemma month_end_eq:
  assumes "1 \<le> y" "y \<le> 9999" "1 \<le> m" "m \<le> 12"
  shows "month_end y m = Some (Date y m (days_in_month y m))"
proof (cases "m = 12")
  case True
  with assms show ?thesis
    by (simp add: month_end_def py_date_def valid_date_def days_in_month_def)
next
  case False
  with assms have m: "m + 1 \<le> 12" "1 < m + 1" by simp_all
  have v: "py_date y (m + 1) 1 = Some (Date y (m + 1) 1)"
    using assms m by (simp add: py_date_def valid_date_def days_in_month_def)
  have "date_add_days (Date y (m + 1) 1) (- 1) = Some (Date y m (days_in_month y m))"
    using assms m by (simp add: date_add_days_def)
  with False v show ?thesis by (simp add: month_end_def)
qed

lemma days_in_month_ge: "28 \<le> days_in_month y m"
  by (simp add: days_in_month_def)

lemma random_date_in_month_range:
  assumes "random_date_in_month g y m (Some e) = Some (d, g')"
  shows "date_year d = y \<and> date_month d = m \<and> valid_date d"
proof -
  from assms have v0: "valid_date (Date y m 1)"
    by (auto simp: random_date_in_month_def py_date_def split: bind_splits if_splits)
  then have ym: "1 \<le> y" "y \<le> 9999" "1 \<le> m" "m \<le> 12" by (simp_all add: valid_date_def)
  define dim where "dim = days_in_month y m"
  have dim: "28 \<le> dim" by (simp add: dim_def days_in_month_ge)
  have me: "month_end y m = Some (Date y m dim)" unfolding dim_def by (rule month_end_eq[OF ym])
  have p0: "py_date y m 1 = Some (Date y m 1)" using v0 by (simp add: py_date_def)
  define first_d where "first_d = (if date_lt (Date y m 1) e then e else Date y m 1)"
  have vl: "valid_date (Date y m dim)" using ym by (simp add: valid_date_def dim_def days_in_month_ge order_trans[OF _ days_in_month_ge])
  show ?thesis
  proof (cases "date_lt (Date y m dim) first_d")
    case True
    with assms me p0 have "d = Date y m dim"
      by (simp add: random_date_in_month_def first_d_def)
    with vl show ?thesis by simp
  next
    case False
    then obtain d1 where d1: "first_d = Date y m d1" "1 \<le> d1" "d1 \<le> dim"
      by (cases e) (auto simp: first_d_def date_lt_def split: if_splits)
    from assms me p0 False obtain k where k: "rng_randint g 0 (max 0 (dim - d1)) = Some (k, g')"
      "date_add_days (Date y m d1) k = Some d"
      by (auto simp: random_date_in_month_def first_d_def[symmetric] d1(1) date_diff_days_def
          toordinal_def split: bind_splits)
    from rng_randint_bounds[OF k(1)] d1 have kb: "0 \<le> k" "d1 + k \<le> dim" by simp_all
    then have "d1 + int (nat k) \<le> days_in_month y m" by (simp add: dim_def)
    from date_succ_iter[OF this] k(2) kb(1) ym have "d = Date y m (d1 + k)"
      by (simp add: date_add_days_def)
    with d1 kb ym show ?thesis by (simp add: valid_date_def dim_def)
  qed
qed

lemma random_date_in_month_defined:
  assumes "1 \<le> y" "y \<le> 9999" "1 \<le> m" "m \<le> 12"
  shows "\<exists>d g'. random_date_in_month g y m (Some e) = Some (d, g')"
proof -
  define dim where "dim = days_in_month y m"
  have me: "month_end y m = Some (Date y m dim)" unfolding dim_def by (rule month_end_eq[OF assms])
  have p0: "py_date y m 1 = Some (Date y m 1)"
    using assms by (simp add: py_date_def valid_date_def order_trans[OF _ days_in_month_ge])
  define first_d where "first_d = (if date_lt (Date y m 1) e then e else Date y m 1)"
  show ?thesis
  proof (cases "date_lt (Date y m dim) first_d")
    case True
    with me p0 show ?thesis by (simp add: random_date_in_month_def first_d_def)
  next
    case False
    then obtain d1 where d1: "first_d = Date y m d1" "1 \<le> d1" "d1 \<le> dim"
      by (cases e) (auto simp: first_d_def date_lt_def split: if_splits)
    obtain k g' where k: "rng_randint g 0 (max 0 (dim - d1)) = Some (k, g')"
      by (cases "rng_randint g 0 (max 0 (dim - d1))") (auto simp: rng_randint_def Let_def split: prod.splits)
    from rng_randint_bounds[OF k] d1 have kb: "0 \<le> k" "d1 + k \<le> dim" by simp_all
    then have "d1 + int (nat k) \<le> days_in_month y m" by (simp add: dim_def)
    from date_succ_iter[OF this] kb(1) assms
    have "date_add_days (Date y m d1) k = Some (Date y m (d1 + k))"
      by (simp add: date_add_days_def)
    with me p0 False k show ?thesis
      by (simp add: random_date_in_month_def first_d_def[symmetric] d1(1) date_diff_days_def
          toordinal_def)
  qed
qed


lemma date_succ_year_step:
  assumes "date_year d = y \<or> (date_year d = y + 1 \<and> date_month d = 1 \<and> 1 \<le> date_day d \<and> date_day d \<le> j)"
    and "0 \<le> j" "j \<le> 27"
  shows "date_year (date_succ d) = y
       \<or> (date_year (date_succ d) = y + 1 \<and> date_month (date_succ d) = 1
           \<and> 1 \<le> date_day (date_succ d) \<and> date_day (date_succ d) \<le> j + 1)"
  using assms by (cases d) (auto simp: days_in_month_def)

lemma date_succ_iter_year:
  "int k \<le> 27 \<Longrightarrow>
   date_year ((date_succ ^^ k) d) = date_year d
   \<or> (date_year ((date_succ ^^ k) d) = date_year d + 1 \<and> date_month ((date_succ ^^ k) d) = 1
       \<and> 1 \<le> date_day ((date_succ ^^ k) d) \<and> date_day ((date_succ ^^ k) d) \<le> int k)"
proof (induction k)
  case 0
  then show ?case by simp
next
  case (Suc k)
  then have ih: "date_year ((date_succ ^^ k) d) = date_year d
     \<or> (date_year ((date_succ ^^ k) d) = date_year d + 1 \<and> date_month ((date_succ ^^ k) d) = 1
         \<and> 1 \<le> date_day ((date_succ ^^ k) d) \<and> date_day ((date_succ ^^ k) d) \<le> int k)"
    by simp
  have "0 \<le> int k" "int k \<le> 27" using Suc.prems by simp_all
  from date_succ_year_step[OF ih this] show ?case by (simp add: add.commute)
qed

lemma date_add_days_defined:
  assumes "1 \<le> date_year d" "date_year d < 9999" "0 \<le> k" "k \<le> 27"
  shows "\<exists>r. date_add_days d k = Some r"
proof -
  have "int (nat k) \<le> 27" using assms by simp
  from date_succ_iter_year[OF this, of d] assms show ?thesis
    by (auto simp: date_add_days_def)
qed

lemma entry_date_from_effective_defined:
  assumes "1 \<le> date_year d" "date_year d < 9999"
  shows "\<exists>dt g'. entry_date_from_effective g d = Some (dt, g')"
proof -
  obtain ld g1 where a: "rng_randint g 0 5 = Some (ld, g1)"
    by (cases "rng_randint g 0 5") (auto simp: rng_randint_def Let_def split: prod.splits)
  obtain lh g2 where b: "rng_randint g1 8 17 = Some (lh, g2)"
    by (cases "rng_randint g1 8 17") (auto simp: rng_randint_def Let_def split: prod.splits)
  obtain lm g3 where c: "rng_randint g2 0 59 = Some (lm, g3)"
    by (cases "rng_randint g2 0 59") (auto simp: rng_randint_def Let_def split: prod.splits)
  obtain ls g4 where e: "rng_randint g3 0 59 = Some (ls, g4)"
    by (cases "rng_randint g3 0 59") (auto simp: rng_randint_def Let_def split: prod.splits)
  note bd = rng_randint_bounds[OF a] rng_randint_bounds[OF b] rng_randint_bounds[OF c]
    rng_randint_bounds[OF e]
  define total where "total = lh * 3600 + lm * 60 + ls"
  have t: "0 \<le> total" "total < 86400" using bd by (simp_all add: total_def)
  then have q: "total div 86400 = 0" by simp
  from date_add_days_defined[OF assms, of ld] bd obtain r where r: "date_add_days d ld = Some r"
    by auto
  have "\<exists>x. datetime_add (DateTime d 0 0 0) ld lh lm ls = Some x"
    using r q by (simp add: datetime_add_def Let_def total_def)
  with a b c e show ?thesis by (auto simp: entry_date_from_effective_def)
qed

lemma clone_event_defined:
  assumes "1 \<le> date_year d" "date_year d < 9999"
  shows "\<exists>ev g'. clone_event source d g = Some (ev, g')"
  using entry_date_from_effective_defined[OF assms, of g]
  by (auto simp: clone_event_def split: prod.splits)

lemma clone_event_fields:
  assumes "clone_event source d g = Some (ev, g')"
  shows "employee_id ev = employee_id source \<and> grade_id ev = grade_id source
       \<and> base_pay ev = base_pay source \<and> effective_date ev = d
       \<and> sequence_number ev = sequence_number source + 1
       \<and> action ev = action source"
  using assms by (auto simp: clone_event_def split: bind_splits prod.splits)

section \<open>The rescind pass\<close>

lemma table_code_for_type_Some: "\<exists>c g'. table_code_for_type g t = Some (c, g')"
  using rng_choice_Some[of "[''INT095E'', ''INT096'', ''INT098'']" g]
  by (auto simp: table_code_for_type_def)

lemma rescind_loop_effect:
  "\<exists>s'. rescind_loop es s = Some s'
     \<and> length (rescinded_wids s') = length (rescinded_wids s) + length es
     \<and> take (length (rescinded_wids s)) (rescinded_wids s') = rescinded_wids s
     \<and> map workday_id (drop (length (rescinded_wids s)) (rescinded_wids s'))
         = map transaction_wid es
     \<and> map rescinded_moment (drop (length (rescinded_wids s)) (rescinded_wids s'))
         = map (\<lambda>e. datetime_isoformat (entry_datetime e)) es
     \<and> all_events s' = all_events s"
proof (induction es arbitrary: s)
  case Nil
  then show ?case by simp
next
  case (Cons e es)
  obtain c g' where c: "table_code_for_type (rng s) (transaction_type e) = Some (c, g')"
    using table_code_for_type_Some by blast
  define r where "r = \<lparr>workday_id = transaction_wid e, idp_table = c,
      rescinded_moment = datetime_isoformat (entry_datetime e)\<rparr>"
  define s1 where "s1 = s\<lparr>rng := g', rescinded_wids := rescinded_wids s @ [r]\<rparr>"
  from Cons.IH[of s1] obtain s' where s': "rescind_loop es s1 = Some s'"
    "length (rescinded_wids s') = length (rescinded_wids s1) + length es"
    "take (length (rescinded_wids s1)) (rescinded_wids s') = rescinded_wids s1"
    "map workday_id (drop (length (rescinded_wids s1)) (rescinded_wids s')) = map transaction_wid es"
    "map rescinded_moment (drop (length (rescinded_wids s1)) (rescinded_wids s'))
       = map (\<lambda>e. datetime_isoformat (entry_datetime e)) es"
    "all_events s' = all_events s1"
    by blast
  have l1: "length (rescinded_wids s1) = Suc (length (rescinded_wids s))" by (simp add: s1_def)
  have run: "rescind_loop (e # es) s = Some s'" using c s'(1) by (simp add: s1_def r_def)
  let ?n = "length (rescinded_wids s)"
  have tk: "take (Suc ?n) (rescinded_wids s') = rescinded_wids s @ [r]"
    using s'(3) l1 by (simp add: s1_def)
  then have tk0: "take ?n (rescinded_wids s') = rescinded_wids s"
    by (metis append_eq_conv_conj butlast_snoc butlast_take diff_Suc_1 length_append_singleton
        length_take min.absorb2 s'(2) l1 le_add1 take_all_iff linorder_le_cases)
  have nth: "rescinded_wids s' ! ?n = r"
    using tk by (metis l1 le_add1 length_take lessI min.absorb2 nth_append_length nth_take s'(2))
  have lt: "?n < length (rescinded_wids s')" using s'(2) l1 by simp
  have dr: "drop ?n (rescinded_wids s') = r # drop (Suc ?n) (rescinded_wids s')"
    using Cons_nth_drop_Suc[OF lt] nth by simp
  show ?case
    apply (rule exI[of _ s'])
    using run s'(2,4,5,6) l1 tk0 dr by (simp add: r_def s1_def)
qed




lemma non_hire_shuffle_length:
  "length (fst (rng_shuffle g (non_hire_events s))) = length (non_hire_events s)"
  by (rule rng_shuffle_length)

lemma new_rescinded_effect:
  assumes "rescind_target cfg s = Some n"
  shows "\<exists>recs. new_rescinded cfg s = Some recs
     \<and> length recs = length (rescind_selection s n)
     \<and> map workday_id recs = map transaction_wid (rescind_selection s n)
     \<and> map rescinded_moment recs
         = map (\<lambda>e. datetime_isoformat (entry_datetime e)) (rescind_selection s n)"
proof -
  obtain sh g1 where sh: "rng_shuffle (rng s) (non_hire_events s) = (sh, g1)"
    by (cases "rng_shuffle (rng s) (non_hire_events s)")
  define s1 where "s1 = s\<lparr>rng := g1\<rparr>"
  have sel: "rescind_selection s n = py_prefix sh n"
    by (simp add: rescind_selection_def sh)
  from rescind_loop_effect[of "rescind_selection s n" s1]
  obtain s' where s': "rescind_loop (rescind_selection s n) s1 = Some s'"
    "length (rescinded_wids s') = length (rescinded_wids s1) + length (rescind_selection s n)"
    "map workday_id (drop (length (rescinded_wids s1)) (rescinded_wids s'))
       = map transaction_wid (rescind_selection s n)"
    "map rescinded_moment (drop (length (rescinded_wids s1)) (rescinded_wids s'))
       = map (\<lambda>e. datetime_isoformat (entry_datetime e)) (rescind_selection s n)"
    by blast
  have run: "generate_rescinded cfg s = Some s'"
    using s'(1) sh sel assms
    by (simp add: generate_rescinded_def non_hire_events_def[symmetric] s1_def)
  have n: "rescinded_wids s1 = rescinded_wids s" by (simp add: s1_def)
  show ?thesis
    apply (rule exI[of _ "drop (length (rescinded_wids s)) (rescinded_wids s')"])
    using run s'(2,3,4) n by (simp add: new_rescinded_def)
qed

lemma new_rescinded_target:
  "new_rescinded cfg s = Some recs \<Longrightarrow> \<exists>n. rescind_target cfg s = Some n"
  by (auto simp: new_rescinded_def generate_rescinded_def split: bind_splits)

lemma rescind_selection_subset: "set (rescind_selection s n) \<subseteq> set (non_hire_events s)"
proof -
  have "set (rescind_selection s n) \<subseteq> set (fst (rng_shuffle (rng s) (non_hire_events s)))"
    by (auto simp: rescind_selection_def py_prefix_def dest: in_set_takeD)
  then show ?thesis by (simp add: rng_shuffle_set)
qed


lemma str_lt_irrefl: "\<not> str_lt x x"
  by (induction x) auto

lemma example_hire_type: "transaction_type (example_hire k) = ''Hire''"
  by (simp add: example_hire_def EmployeeEvent_def)

lemma example_termination_type: "transaction_type example_termination = ''Termination''"
  by (simp add: example_termination_def EmployeeEvent_def)

lemma rescind_example_events:
  "length (all_events rescind_example) = 67"
  "non_hire_events rescind_example = [example_termination]"
  "rng rescind_example = []"
  "rescinded_wids rescind_example = []"
  by (simp_all add: rescind_example_def init_generator_def non_hire_events_def
      example_hire_type example_termination_type)

lemma RESCIND_RATE_default: "RESCIND_RATE default_config = fl (15/1000)"
  by (simp add: default_config_def)

lemma rescind_example_target: "rescind_target default_config rescind_example = Some 1"
  by (simp add: rescind_target_def rescind_example_events RESCIND_RATE_default float_eval
      cong: bind_weak_cong let_eval_cong)

lemma rescind_example_selection:
  "rescind_selection rescind_example 1 = [example_termination]"
  by (simp add: rescind_selection_def rescind_example_events rng_shuffle_def py_prefix_def)




text \<open>
  C5, as amended. Every record that the rescind pass appends carries the transaction id of a
  non-Hire event of the history, and its rescind timestamp is the ISO text of the entry
  timestamp of that event: equal to it, not later.
\<close>

theorem rescinded_moment_is_entry:
  assumes "new_rescinded cfg s = Some recs"
  shows "\<forall>r \<in> set recs. \<exists>e \<in> set (non_hire_events s).
            workday_id r = transaction_wid e
          \<and> rescinded_moment r = datetime_isoformat (entry_datetime e)
          \<and> \<not> str_lt (datetime_isoformat (entry_datetime e)) (rescinded_moment r)"
proof
  fix r assume "r \<in> set recs"
  then obtain i where i: "i < length recs" "recs ! i = r" by (auto simp: in_set_conv_nth)
  from new_rescinded_target[OF assms] obtain n where n: "rescind_target cfg s = Some n" by blast
  from new_rescinded_effect[OF n] assms
  have eff: "length recs = length (rescind_selection s n)"
    "map workday_id recs = map transaction_wid (rescind_selection s n)"
    "map rescinded_moment recs
       = map (\<lambda>e. datetime_isoformat (entry_datetime e)) (rescind_selection s n)"
    by auto
  define e where "e = rescind_selection s n ! i"
  have "e \<in> set (rescind_selection s n)" using i(1) eff(1) by (simp add: e_def)
  then have mem: "e \<in> set (non_hire_events s)" using rescind_selection_subset by blast
  have w: "workday_id r = transaction_wid e"
    using arg_cong[OF eff(2), of "\<lambda>xs. xs ! i"] i eff(1) by (simp add: e_def)
  have m: "rescinded_moment r = datetime_isoformat (entry_datetime e)"
    using arg_cong[OF eff(3), of "\<lambda>xs. xs ! i"] i eff(1) by (simp add: e_def)
  from mem w m str_lt_irrefl
  show "\<exists>e \<in> set (non_hire_events s).
            workday_id r = transaction_wid e
          \<and> rescinded_moment r = datetime_isoformat (entry_datetime e)
          \<and> \<not> str_lt (datetime_isoformat (entry_datetime e)) (rescinded_moment r)"
    by auto
qed

lemma example_termination_iso:
  "datetime_isoformat (entry_datetime example_termination) = ''2016-03-08T09:30:15''"
  by (simp add: example_termination_def EmployeeEvent_def datetime_isoformat_def
      date_isoformat_def fmt_0d_def zero_pad_def dec_digits.simps digit_char_def)

theorem rescinded_moment_is_entry_witness:
  "new_rescinded default_config rescind_example
     = Some [\<lparr>workday_id = transaction_wid example_termination, idp_table = ''INT095E'',
              rescinded_moment = ''2016-03-08T09:30:15''\<rparr>]
   \<and> (\<exists>e \<in> set (non_hire_events rescind_example).
          transaction_wid example_termination = transaction_wid e
        \<and> ''2016-03-08T09:30:15'' = datetime_isoformat (entry_datetime e)
        \<and> \<not> str_lt (datetime_isoformat (entry_datetime e)) ''2016-03-08T09:30:15'')"
proof -
  have run: "new_rescinded default_config rescind_example
     = Some [\<lparr>workday_id = transaction_wid example_termination, idp_table = ''INT095E'',
              rescinded_moment = ''2016-03-08T09:30:15''\<rparr>]"
    by (simp add: new_rescinded_def generate_rescinded_def rescind_example_target
        non_hire_events_def[symmetric] rescind_example_events rng_shuffle_def py_prefix_def
        table_code_for_type_def example_termination_type rng_choice_def
        rng_next_def example_termination_iso)
  from rescinded_moment_is_entry[OF run] run show ?thesis by simp
qed

text \<open>
  The claim C5 as stated fails: the one record appended for the example history carries the
  entry timestamp of the event it references, which is not later than itself.
\<close>

theorem rescinded_moment_counterexample:
  "map_option (map rescinded_moment) (new_rescinded default_config rescind_example)
     = Some [datetime_isoformat (entry_datetime example_termination)]
   \<and> map_option (map workday_id) (new_rescinded default_config rescind_example)
       = Some [transaction_wid example_termination]
   \<and> \<not> str_lt (datetime_isoformat (entry_datetime example_termination))
            (datetime_isoformat (entry_datetime example_termination))"
  using new_rescinded_effect[OF rescind_example_target] str_lt_irrefl
  by (auto simp: rescind_example_selection)
section \<open>Promotion\<close>

lemma index_of_nth: "distinct xs \<Longrightarrow> n < length xs \<Longrightarrow> index_of xs (xs ! n) = Some n"
proof (induction xs arbitrary: n)
  case Nil
  then show ?case by simp
next
  case (Cons x xs)
  show ?case
  proof (cases n)
    case 0
    then show ?thesis by simp
  next
    case (Suc m)
    with Cons.prems have "xs ! m \<in> set xs" "x \<notin> set xs" by auto
    then have "x \<noteq> xs ! m" by auto
    with Suc Cons show ?thesis by simp
  qed
qed

lemma find_nth_by_key:
  "distinct (map f xs) \<Longrightarrow> n < length xs \<Longrightarrow> find (\<lambda>y. f y = f (xs ! n)) xs = Some (xs ! n)"
proof (induction xs arbitrary: n)
  case Nil
  then show ?case by simp
next
  case (Cons x xs)
  show ?case
  proof (cases n)
    case 0
    then show ?thesis by simp
  next
    case (Suc m)
    with Cons.prems have "f (xs ! m) \<in> f ` set xs" "f x \<notin> f ` set xs" by auto
    then have "f x \<noteq> f (xs ! m)" by auto
    with Suc Cons show ?thesis by simp
  qed
qed

lemma next_grade_up:
  assumes "distinct (map g_id (GRADES cfg))" "Suc n < length (GRADES cfg)"
  shows "next_grade cfg (g_id (GRADES cfg ! n)) ''up'' = Some (g_id (GRADES cfg ! Suc n))"
proof -
  have "index_of (map g_id (GRADES cfg)) (map g_id (GRADES cfg) ! n) = Some n"
    using assms by (intro index_of_nth) auto
  then show ?thesis using assms by (simp add: next_grade_def Let_def)
qed

lemma next_grade_top:
  assumes "distinct (map g_id (GRADES cfg))" "Suc n = length (GRADES cfg)"
  shows "next_grade cfg (g_id (GRADES cfg ! n)) ''up'' = None"
proof -
  have "index_of (map g_id (GRADES cfg)) (map g_id (GRADES cfg) ! n) = Some n"
    using assms by (intro index_of_nth) auto
  then show ?thesis using assms by (auto simp: next_grade_def Let_def)
qed


lemma fl_nonint_small:
  assumes "fl x \<noteq> real_of_int \<lfloor>fl x\<rfloor>"
  shows "\<bar>fl x\<bar> \<le> 2 ^ 52"
proof -
  have x0: "x \<noteq> 0" using assms by (auto simp: fl_zero)
  define e where "e = max (binade x) (- 1022)"
  have "e < 52"
  proof (rule ccontr)
    assume "\<not> e < 52"
    then have "ulp x = 2 ^ nat (e - 52)" by (simp add: ulp_def e_def[symmetric] pow2_def)
    then have "fl x = real_of_int (round_half_even (x / ulp x) * 2 ^ nat (e - 52))"
      by (simp add: fl_def)
    then have "fl x = real_of_int \<lfloor>fl x\<rfloor>" by (metis floor_of_int)
    with assms show False by simp
  qed
  then have "binade x + 1 \<le> 52" by (simp add: e_def)
  from pow2_mono[OF this] binade_bounds[OF x0] have "\<bar>x\<bar> \<le> pow2 52" by simp
  from fl_abs_le_pow2[OF this] show ?thesis using pow2_int[of 52] by simp
qed

lemma py_round2_bounds:
  assumes "real_of_int lo \<le> c" "c \<le> real_of_int hi"
    and "c \<noteq> real_of_int \<lfloor>c\<rfloor> \<longrightarrow> \<bar>c\<bar> \<le> 2 ^ 52"
  shows "real_of_int lo \<le> py_round2 c \<and> py_round2 c \<le> real_of_int hi"
proof (cases "c = real_of_int \<lfloor>c\<rfloor>")
  case True
  then have "py_round2 c = c" by (simp add: py_round2_def)
  with assms show ?thesis by simp
next
  case False
  with assms(3) have small: "- (2 ^ 52) \<le> c" "c \<le> 2 ^ 52" by (simp_all add: abs_le_iff)
  define k where "k = round_half_even (c * 100)"
  define q where "q = real_of_int k / 100"
  have "real_of_int (lo * 100) \<le> c * 100" "c * 100 \<le> real_of_int (hi * 100)"
    using assms(1,2) by simp_all
  from round_half_even_bounds[OF this] have "lo * 100 \<le> k" "k \<le> hi * 100"
    by (simp_all add: k_def)
  then have "real_of_int (lo * 100) \<le> real_of_int k" "real_of_int k \<le> real_of_int (hi * 100)"
    by (simp_all only: of_int_le_iff)
  then have qb: "real_of_int lo \<le> q" "q \<le> real_of_int hi" by (simp_all add: q_def)
  have "real_of_int (- (2 ^ 52) * 100) \<le> c * 100" "c * 100 \<le> real_of_int (2 ^ 52 * 100)"
    using small by simp_all
  from round_half_even_bounds[OF this] have "- (2 ^ 52) * 100 \<le> k" "k \<le> 2 ^ 52 * 100"
    by (simp_all add: k_def)
  then have "real_of_int (- (2 ^ 52) * 100) \<le> real_of_int k"
    "real_of_int k \<le> real_of_int (2 ^ 52 * 100)"
    by (simp_all only: of_int_le_iff)
  then have "\<bar>q\<bar> \<le> 2 ^ 52" by (simp add: q_def abs_le_iff)
  then have "\<bar>q\<bar> < 2 ^ 53" by simp
  from fl_int_bounds[OF this, of lo] fl_int_bounds[OF this, of hi] qb
  have "real_of_int lo \<le> fl q" "fl q \<le> real_of_int hi" by simp_all
  with False show ?thesis by (simp add: py_round2_def q_def k_def)
qed

lemma salary_for_grade_bounds:
  assumes "find (\<lambda>gr. g_id gr = gid) (GRADES cfg) = Some gr" "g_min gr \<le> g_max gr"
    and "salary_for_grade cfg g gid = Some (pay, g')"
  shows "real_of_int (g_min gr) \<le> pay \<and> pay \<le> real_of_int (g_max gr)"
proof -
  from assms(1,3) obtain sigma mu x where
    gs: "rng_gauss g mu sigma = (x, g')" and
    p: "pay = py_round2 (max (real_of_int (g_min gr)) (min (real_of_int (g_max gr)) x))"
    by (auto simp: salary_for_grade_def split: bind_splits prod.splits)
  define c where "c = max (real_of_int (g_min gr)) (min (real_of_int (g_max gr)) x)"
  have b: "real_of_int (g_min gr) \<le> c" "c \<le> real_of_int (g_max gr)"
    using assms(2) by (auto simp: c_def)
  have xfl: "\<exists>y. x = fl y"
    using gs by (auto simp: rng_gauss_def fadd_def split: prod.splits)
  have "c \<noteq> real_of_int \<lfloor>c\<rfloor> \<longrightarrow> \<bar>c\<bar> \<le> 2 ^ 52"
  proof
    assume ni: "c \<noteq> real_of_int \<lfloor>c\<rfloor>"
    have "c = x"
    proof (rule ccontr)
      assume "c \<noteq> x"
      then have "c = real_of_int (g_min gr) \<or> c = real_of_int (g_max gr)"
        by (auto simp: c_def max_def min_def split: if_splits)
      with ni show False by auto
    qed
    with ni xfl fl_nonint_small show "\<bar>c\<bar> \<le> 2 ^ 52" by auto
  qed
  from py_round2_bounds[OF b this] show ?thesis by (simp add: p c_def)
qed

lemma salary_for_grade_defined:
  assumes "find (\<lambda>gr. g_id gr = gid) (GRADES cfg) = Some gr"
    and "\<bar>g_min gr\<bar> < 2 ^ 1000" "\<bar>g_mid gr\<bar> < 2 ^ 1000" "\<bar>g_max gr\<bar> < 2 ^ 1000"
  shows "\<exists>pay g'. salary_for_grade cfg g gid = Some (pay, g')"
proof -
  have p: "pow2 1000 = 2 ^ 1000" using pow2_int[of 1000] by simp
  have big: "(2::real) ^ 1000 < 2 ^ 1024" by simp
  have r: "\<bar>real_of_int (g_min gr)\<bar> < 2 ^ 1000" "\<bar>real_of_int (g_mid gr)\<bar> < 2 ^ 1000"
    "\<bar>real_of_int (g_max gr)\<bar> < 2 ^ 1000"
    using assms(2,3,4) by (metis of_int_abs of_int_less_iff of_int_numeral of_int_power)+
  have "\<bar>real_of_int (g_max gr - g_min gr) / real_of_int 4\<bar> \<le> pow2 1000"
    using r by (simp add: p abs_le_iff abs_less_iff)
  from fl_abs_le_pow2[OF this]
  have "\<bar>fl (real_of_int (g_max gr - g_min gr) / real_of_int 4)\<bar> < 2 ^ 1024"
    using big by (simp add: p)
  then obtain sigma where s: "int_truediv (g_max gr - g_min gr) 4 = Some sigma"
    by (simp add: int_truediv_def Let_def)
  have "\<bar>real_of_int (g_mid gr)\<bar> \<le> pow2 1000" using r by (simp add: p)
  from fl_abs_le_pow2[OF this] have "\<bar>fl (real_of_int (g_mid gr))\<bar> < 2 ^ 1024"
    using big by (simp add: p)
  then obtain mu where m: "float_of_int (g_mid gr) = Some mu"
    by (simp add: float_of_int_def Let_def)
  show ?thesis using assms(1) s m by (simp add: salary_for_grade_def split: prod.splits)
qed

lemma career_branch_promo_top:
  assumes "ca_reason_code act = ''CHG_PROMO''"
    and "next_grade cfg (grade_id last_event) ''up'' = None"
    and "career_branch cfg s year act last_event eff ev1 g = Some (ev2, g')"
  shows "ev2 = ev1"
  using assms by (simp add: career_branch_def)

lemma set_job_profile_keeps:
  "grade_id (set_job_profile jp ev) = grade_id ev"
  "base_pay (set_job_profile jp ev) = base_pay ev"
  "employee_id (set_job_profile jp ev) = employee_id ev"
  "action_reason_code (set_job_profile jp ev) = action_reason_code ev"
  "effective_date (set_job_profile jp ev) = effective_date ev"
  "sequence_number (set_job_profile jp ev) = sequence_number ev"
  "action (set_job_profile jp ev) = action ev"
  by (cases jp; simp add: set_job_profile_def)+

lemma career_branch_promo_up:
  assumes "ca_reason_code act = ''CHG_PROMO''"
    and "next_grade cfg (grade_id last_event) ''up'' = Some ng" "ng \<noteq> []"
    and "career_branch cfg s year act last_event eff ev1 g = Some (ev2, g')"
  shows "grade_id ev2 = ng \<and> employee_id ev2 = employee_id ev1
       \<and> action_reason_code ev2 = action_reason_code ev1
       \<and> (\<exists>g1 g2. salary_for_grade cfg g1 ng = Some (base_pay ev2, g2))"
  using assms
  by (auto simp: career_branch_def Let_def set_job_profile_keeps
      split: bind_splits prod.splits option.splits) blast+

lemma pick_job_profile_for_grade_defined:
  "\<exists>jp g'. pick_job_profile_for_grade s g gid = Some (jp, g')"
proof -
  define matching where "matching = filter (\<lambda>jp. Compensation_Grade jp = gid) (jp_list s)"
  show ?thesis
  proof (cases "matching \<noteq> []")
    case True
    from rng_choice_Some[OF this, of g] show ?thesis
      using True by (auto simp: pick_job_profile_for_grade_def matching_def[symmetric])
  next
    case False
    show ?thesis
    proof (cases "jp_list s \<noteq> []")
      case True
      from rng_choice_Some[OF this, of g] show ?thesis
        using False True by (auto simp: pick_job_profile_for_grade_def matching_def[symmetric])
    next
      case e: False
      with False show ?thesis
        by (auto simp: pick_job_profile_for_grade_def matching_def[symmetric])
    qed
  qed
qed

lemma ladder_ok_nth:
  assumes "ladder_ok cfg" "n < length (GRADES cfg)"
  shows "g_id (GRADES cfg ! n) \<noteq> []" "g_min (GRADES cfg ! n) \<le> g_max (GRADES cfg ! n)"
    "\<bar>g_min (GRADES cfg ! n)\<bar> < 2 ^ 1000" "\<bar>g_mid (GRADES cfg ! n)\<bar> < 2 ^ 1000"
    "\<bar>g_max (GRADES cfg ! n)\<bar> < 2 ^ 1000"
    "find (\<lambda>gr. g_id gr = g_id (GRADES cfg ! n)) (GRADES cfg) = Some (GRADES cfg ! n)"
  using assms find_nth_by_key[of g_id "GRADES cfg" n]
  by (auto simp: ladder_ok_def list_all_length)


lemma apply_career_action_steps:
  assumes "apply_career_action cfg emp_id year month act s = Some s'"
    and "map_of (active_employees s) emp_id = Some last_event"
  shows "\<exists>eff g1 ev g2 ev2 g3.
           random_date_in_month (rng s) year month (Some (COMPANY_FOUNDED cfg)) = Some (eff, g1)
         \<and> clone_event last_event eff g1 = Some (ev, g2)
         \<and> career_branch cfg s year act last_event eff
              (ev\<lparr>transaction_type := ca_action act, action := ca_action act,
                  action_code := ca_code act, action_reason := ca_reason act,
                  action_reason_code := ca_reason_code act\<rparr>) g2 = Some (ev2, g3)
         \<and> s' = s\<lparr>rng := g3, all_events := all_events s @ [ev2],
                   active_employees := AList.update emp_id ev2 (active_employees s)\<rparr>"
  using assms by (auto simp: apply_career_action_def Let_def split: bind_splits prod.splits)

lemma career_branch_promo_defined:
  assumes "ca_reason_code act = ''CHG_PROMO''" "ladder_ok cfg" "n < length (GRADES cfg)"
    and "grade_id last_event = g_id (GRADES cfg ! n)"
  shows "\<exists>ev2 g'. career_branch cfg s year act last_event eff ev1 g = Some (ev2, g')"
proof (cases "Suc n < length (GRADES cfg)")
  case True
  from next_grade_up[OF _ True] assms(2,4)
  have ng: "next_grade cfg (grade_id last_event) ''up'' = Some (g_id (GRADES cfg ! Suc n))"
    by (simp add: ladder_ok_def)
  note l = ladder_ok_nth[OF assms(2) True]
  obtain jp g1 where j: "pick_job_profile_for_grade s g (g_id (GRADES cfg ! Suc n)) = Some (jp, g1)"
    using pick_job_profile_for_grade_defined by blast
  from salary_for_grade_defined[OF l(6) l(3,4,5), of g1]
  obtain pay g2 where p: "salary_for_grade cfg g1 (g_id (GRADES cfg ! Suc n)) = Some (pay, g2)"
    by blast
  show ?thesis using assms(1) ng l(1) j p by (simp add: career_branch_def Let_def)
next
  case False
  with assms(3) have "Suc n = length (GRADES cfg)" by simp
  from next_grade_top[OF _ this] assms(2,4)
  have "next_grade cfg (grade_id last_event) ''up'' = None" by (simp add: ladder_ok_def)
  with assms(1) show ?thesis by (simp add: career_branch_def)
qed

text \<open>
  C8. On a grade ladder, a Promotion applied to an active employee in band \<open>n\<close> appends one
  event for that employee. If a band \<open>n + 1\<close> exists, the event carries its grade id and a base
  pay between its minimum and its maximum; in the top band the event keeps the grade id and
  the base pay of the employee's latest event. For a year from 1 to 9998 and a month from 1 to
  12 the action is applied without an error.
\<close>

theorem promotion_moves_one_band:
  assumes "ladder_ok cfg"
    and "map_of (active_employees s) emp_id = Some last_event"
    and "n < length (GRADES cfg)"
    and "grade_id last_event = g_id (GRADES cfg ! n)"
    and "ca_reason_code act = ''CHG_PROMO''"
  shows "(\<forall>s'. apply_career_action cfg emp_id year month act s = Some s' \<longrightarrow>
            (\<exists>ev. all_events s' = all_events s @ [ev]
                \<and> map_of (active_employees s') emp_id = Some ev
                \<and> employee_id ev = employee_id last_event
                \<and> action_reason_code ev = ''CHG_PROMO''
                \<and> (Suc n < length (GRADES cfg) \<longrightarrow>
                      grade_id ev = g_id (GRADES cfg ! Suc n)
                    \<and> real_of_int (g_min (GRADES cfg ! Suc n)) \<le> base_pay ev
                    \<and> base_pay ev \<le> real_of_int (g_max (GRADES cfg ! Suc n)))
                \<and> (Suc n = length (GRADES cfg) \<longrightarrow>
                      grade_id ev = grade_id last_event
                    \<and> base_pay ev = base_pay last_event)))
       \<and> (1 \<le> year \<and> year < 9999 \<and> 1 \<le> month \<and> month \<le> 12 \<longrightarrow>
            (\<exists>s'. apply_career_action cfg emp_id year month act s = Some s'))"
proof (intro conjI allI impI)
  fix s' assume run: "apply_career_action cfg emp_id year month act s = Some s'"
  from apply_career_action_steps[OF run assms(2)] obtain eff g1 ev g2 ev2 g3 where
    st: "clone_event last_event eff g1 = Some (ev, g2)"
      "career_branch cfg s year act last_event eff
         (ev\<lparr>transaction_type := ca_action act, action := ca_action act,
             action_code := ca_code act, action_reason := ca_reason act,
             action_reason_code := ca_reason_code act\<rparr>) g2 = Some (ev2, g3)"
      "s' = s\<lparr>rng := g3, all_events := all_events s @ [ev2],
               active_employees := AList.update emp_id ev2 (active_employees s)\<rparr>"
    by blast
  define ev1 where "ev1 = ev\<lparr>transaction_type := ca_action act, action := ca_action act,
             action_code := ca_code act, action_reason := ca_reason act,
             action_reason_code := ca_reason_code act\<rparr>"
  note cl = clone_event_fields[OF st(1)]
  have ev1: "employee_id ev1 = employee_id last_event" "grade_id ev1 = grade_id last_event"
    "base_pay ev1 = base_pay last_event" "action_reason_code ev1 = ''CHG_PROMO''"
    using cl assms(5) by (simp_all add: ev1_def)
  have up: "grade_id ev2 = g_id (GRADES cfg ! Suc n)
          \<and> real_of_int (g_min (GRADES cfg ! Suc n)) \<le> base_pay ev2
          \<and> base_pay ev2 \<le> real_of_int (g_max (GRADES cfg ! Suc n))
          \<and> employee_id ev2 = employee_id ev1 \<and> action_reason_code ev2 = action_reason_code ev1"
    if lt: "Suc n < length (GRADES cfg)"
  proof -
    from next_grade_up[OF _ lt] assms(1,4)
    have ng: "next_grade cfg (grade_id last_event) ''up'' = Some (g_id (GRADES cfg ! Suc n))"
      by (simp add: ladder_ok_def)
    note l = ladder_ok_nth[OF assms(1) lt]
    from career_branch_promo_up[OF assms(5) ng l(1) st(2)[folded ev1_def]]
    obtain ga gb where r: "grade_id ev2 = g_id (GRADES cfg ! Suc n)"
      "employee_id ev2 = employee_id ev1" "action_reason_code ev2 = action_reason_code ev1"
      "salary_for_grade cfg ga (g_id (GRADES cfg ! Suc n)) = Some (base_pay ev2, gb)"
      by blast
    from salary_for_grade_bounds[OF l(6) l(2) r(4)] r(1,2,3) show ?thesis by simp
  qed
  have top: "ev2 = ev1" if eq: "Suc n = length (GRADES cfg)"
  proof -
    from next_grade_top[OF _ eq] assms(1,4)
    have "next_grade cfg (grade_id last_event) ''up'' = None" by (simp add: ladder_ok_def)
    from career_branch_promo_top[OF assms(5) this st(2)[folded ev1_def]] show ?thesis .
  qed
  have ids: "employee_id ev2 = employee_id last_event \<and> action_reason_code ev2 = ''CHG_PROMO''"
  proof (cases "Suc n < length (GRADES cfg)")
    case True
    from up[OF True] ev1 show ?thesis by simp
  next
    case False
    with assms(3) have "Suc n = length (GRADES cfg)" by simp
    from top[OF this] ev1 show ?thesis by simp
  qed
  show "\<exists>ev. all_events s' = all_events s @ [ev]
          \<and> map_of (active_employees s') emp_id = Some ev
          \<and> employee_id ev = employee_id last_event
          \<and> action_reason_code ev = ''CHG_PROMO''
          \<and> (Suc n < length (GRADES cfg) \<longrightarrow>
                grade_id ev = g_id (GRADES cfg ! Suc n)
              \<and> real_of_int (g_min (GRADES cfg ! Suc n)) \<le> base_pay ev
              \<and> base_pay ev \<le> real_of_int (g_max (GRADES cfg ! Suc n)))
          \<and> (Suc n = length (GRADES cfg) \<longrightarrow>
                grade_id ev = grade_id last_event
              \<and> base_pay ev = base_pay last_event)"
    apply (rule exI[of _ ev2])
    using st(3) ids up top ev1 by (auto simp: update_conv)
next
  assume ym: "1 \<le> year \<and> year < 9999 \<and> 1 \<le> month \<and> month \<le> 12"
  then obtain eff g1 where
    r: "random_date_in_month (rng s) year month (Some (COMPANY_FOUNDED cfg)) = Some (eff, g1)"
    using random_date_in_month_defined[of year month "rng s" "COMPANY_FOUNDED cfg"] by auto
  from random_date_in_month_range[OF r] ym have y: "1 \<le> date_year eff" "date_year eff < 9999"
    by simp_all
  from clone_event_defined[OF y, of last_event g1] obtain ev g2 where
    c: "clone_event last_event eff g1 = Some (ev, g2)" by blast
  from career_branch_promo_defined[OF assms(5,1,3,4)] obtain ev2 g3 where
    b: "career_branch cfg s year act last_event eff
         (ev\<lparr>transaction_type := ca_action act, action := ca_action act,
             action_code := ca_code act, action_reason := ca_reason act,
             action_reason_code := ca_reason_code act\<rparr>) g2 = Some (ev2, g3)"
    by blast
  show "\<exists>s'. apply_career_action cfg emp_id year month act s = Some s'"
    using assms(2) r c b by (simp add: apply_career_action_def Let_def)
qed


lemma GRADES_default: "GRADES default_config = default_GRADES"
  by (simp add: default_config_def)

lemma CAREER_ACTIONS_default: "CAREER_ACTIONS default_config = default_CAREER_ACTIONS"
  by (simp add: default_config_def)

lemma ladder_ok_default: "ladder_ok default_config"
  by (simp add: ladder_ok_def GRADES_default default_GRADES_def mk_grade_def)

lemma example_active_employee:
  "map_of (active_employees (example_active gid)) (generate_employee_id 1)
     = Some ((example_hire 1)\<lparr>grade_id := gid\<rparr>)"
  "all_events (example_active gid) = [(example_hire 1)\<lparr>grade_id := gid\<rparr>]"
  by (simp_all add: example_active_def)

theorem promotion_moves_one_band_witness:
  "ladder_ok default_config
   \<and> map_of (active_employees (example_active ''G01'')) (generate_employee_id 1)
       = Some ((example_hire 1)\<lparr>grade_id := ''G01''\<rparr>)
   \<and> 0 < length (GRADES default_config)
   \<and> grade_id ((example_hire 1)\<lparr>grade_id := ''G01''\<rparr>) = g_id (GRADES default_config ! 0)
   \<and> ca_reason_code (CAREER_ACTIONS default_config ! 0) = ''CHG_PROMO''
   \<and> Suc 0 < length (GRADES default_config)
   \<and> (\<exists>s' ev. apply_career_action default_config (generate_employee_id 1) 2016 6
                   (CAREER_ACTIONS default_config ! 0) (example_active ''G01'') = Some s'
         \<and> all_events s' = all_events (example_active ''G01'') @ [ev]
         \<and> grade_id ev = ''G02'' \<and> 52000 \<le> base_pay ev \<and> base_pay ev \<le> 72000)
   \<and> map_of (active_employees (example_active ''G15'')) (generate_employee_id 1)
       = Some ((example_hire 1)\<lparr>grade_id := ''G15''\<rparr>)
   \<and> 14 < length (GRADES default_config)
   \<and> grade_id ((example_hire 1)\<lparr>grade_id := ''G15''\<rparr>) = g_id (GRADES default_config ! 14)
   \<and> Suc 14 = length (GRADES default_config)
   \<and> (\<exists>s' ev. apply_career_action default_config (generate_employee_id 1) 2016 6
                   (CAREER_ACTIONS default_config ! 0) (example_active ''G15'') = Some s'
         \<and> all_events s' = all_events (example_active ''G15'') @ [ev]
         \<and> grade_id ev = ''G15''
         \<and> base_pay ev = base_pay ((example_hire 1)\<lparr>grade_id := ''G15''\<rparr>))"
proof -
  have g: "0 < length (GRADES default_config)" "Suc 0 < length (GRADES default_config)"
    "14 < length (GRADES default_config)" "Suc 14 = length (GRADES default_config)"
    "g_id (GRADES default_config ! 0) = ''G01''" "g_id (GRADES default_config ! Suc 0) = ''G02''"
    "g_id (GRADES default_config ! 14) = ''G15''"
    "g_min (GRADES default_config ! Suc 0) = 52000" "g_max (GRADES default_config ! Suc 0) = 72000"
    by (simp_all add: GRADES_default default_GRADES_def mk_grade_def)
  have c: "ca_reason_code (CAREER_ACTIONS default_config ! 0) = ''CHG_PROMO''"
    by (simp add: CAREER_ACTIONS_default default_CAREER_ACTIONS_def mk_action_def)
  have y: "(1::int) \<le> 2016 \<and> (2016::int) < 9999 \<and> (1::int) \<le> 6 \<and> (6::int) \<le> 12" by simp
  have a1: "grade_id ((example_hire 1)\<lparr>grade_id := ''G01''\<rparr>) = g_id (GRADES default_config ! 0)"
    by (simp add: g)
  have a15: "grade_id ((example_hire 1)\<lparr>grade_id := ''G15''\<rparr>) = g_id (GRADES default_config ! 14)"
    by (simp add: g)
  from promotion_moves_one_band[OF ladder_ok_default example_active_employee(1) g(1) a1 c,
      of 2016 6] y g(2)
  have low: "\<exists>s' ev. apply_career_action default_config (generate_employee_id 1) 2016 6
                   (CAREER_ACTIONS default_config ! 0) (example_active ''G01'') = Some s'
         \<and> all_events s' = all_events (example_active ''G01'') @ [ev]
         \<and> grade_id ev = ''G02'' \<and> 52000 \<le> base_pay ev \<and> base_pay ev \<le> 72000"
    by (simp add: g) blast
  from promotion_moves_one_band[OF ladder_ok_default example_active_employee(1) g(3) a15 c,
      of 2016 6] y g(4)
  have top: "\<exists>s' ev. apply_career_action default_config (generate_employee_id 1) 2016 6
                   (CAREER_ACTIONS default_config ! 0) (example_active ''G15'') = Some s'
         \<and> all_events s' = all_events (example_active ''G15'') @ [ev]
         \<and> grade_id ev = ''G15''
         \<and> base_pay ev = base_pay ((example_hire 1)\<lparr>grade_id := ''G15''\<rparr>)"
    by (simp add: g) blast
  from ladder_ok_default example_active_employee(1) g(1,2,3,4) a1 a15 c low top
  show ?thesis by blast
qed

end
